theory Spec2Isabelle
  imports Main "HOL-Library.Sublist"
begin

section \<open>RedGram: the client's synchronization controller and the relay's promo handler\<close>

text \<open>
  A shallow embedding of the state-changing handlers of \<^verbatim>\<open>App.tsx\<close>, of the channel
  adapter \<^verbatim>\<open>ChatSocket\<close> and of the \<^verbatim>\<open>REDEEM_PROMO\<close> handler of \<^verbatim>\<open>server.js\<close>.

  Conventions of the embedding:
  \<^item> a TypeScript interface is a record; the fields of \<^verbatim>\<open>Message\<close> carry the prefix
    \<open>m_\<close>, those of \<^verbatim>\<open>ChatPreview\<close> the prefix \<open>c_\<close>, those of \<^verbatim>\<open>UserProfile\<close> the
    prefix \<open>u_\<close> (the three interfaces share field names);
  \<^item> an optional field (\<^verbatim>\<open>senderId?: string\<close>) is an \<open>option\<close>: \<open>None\<close> stands for
    an absent, \<^verbatim>\<open>undefined\<close> or \<^verbatim>\<open>null\<close> value;
  \<^item> a JavaScript number that counts or stamps time is an \<open>int\<close>;
  \<^item> \<^verbatim>\<open>Record<string, T>\<close> is a map \<open>string \<rightharpoonup> T\<close>;
  \<^item> React state is one record \<open>app_state\<close>; a handler takes the state and returns the
    state after all its queued updates have been applied, in the order they were queued;
  \<^item> a handler reads \<^verbatim>\<open>activeChatId\<close>, \<^verbatim>\<open>userProfile\<close> and \<^verbatim>\<open>chats\<close> as constants of the
    render that defined it, and the state itself only through the updater functions it
    queues: a handler that outlives its render (the socket listener, the timer of a
    generated reply) takes those constants as a record \<open>render\<close> of its own, beside the
    state at the time of the call;
  \<^item> a \<^verbatim>\<open>TypeError\<close> that the code raises is the value \<open>Inl TypeError\<close>;
  \<^item> \<^verbatim>\<open>Date.now()\<close> is a parameter \<open>now\<close> of the handler that reads the clock.
\<close>

subsection \<open>Data model (\<^verbatim>\<open>services/ChatSocket.ts\<close>)\<close>

datatype sender_tag = Me | Them

datatype status = Sent | Delivered | Read

datatype msg_type = TText | TVoice | TImage | TFile

record Message =
  m_id :: string
  m_chatId :: string
  m_text :: string
  m_sender :: sender_tag
  m_senderId :: "string option"
  m_timestamp :: int
  m_status :: status
  m_type :: "msg_type option"
  m_mediaUrl :: "string option"
  m_fileName :: "string option"
  m_fileSize :: "string option"
  m_duration :: "int option"

record ChatPreview =
  c_id :: string
  c_name :: string
  c_avatar :: "string option"
  c_color :: string
  c_lastMessage :: string
  c_timestamp :: int
  c_unreadCount :: int
  c_isOnline :: bool
  c_isBot :: "bool option"
  c_isGroup :: "bool option"
  c_username :: "string option"
  c_bio :: "string option"
  c_phone :: "string option"
  c_muted :: "bool option"
  c_isAdmin :: "bool option"
  c_membersCount :: "int option"
  c_sender :: "sender_tag option"
  c_memberIds :: "string list option"

datatype visibility = Everybody | Nobody

record Privacy =
  profilePhoto :: visibility
  phoneNumber :: "visibility option"
  lastSeen :: "visibility option"
  stories :: "visibility option"

record UserProfile =
  u_id :: string
  u_name :: string
  u_username :: string
  u_phone :: string
  u_bio :: string
  u_avatarColor :: string
  u_isPremium :: "bool option"
  u_isAdmin :: "bool option"
  u_privacy :: "Privacy option"

text \<open>The attachment argument of \<^verbatim>\<open>sendMessage\<close> and \<^verbatim>\<open>handleSendMessage\<close>.\<close>

record Attachment =
  a_type :: msg_type
  a_mediaUrl :: string
  a_fileName :: "string option"
  a_fileSize :: "string option"
  a_duration :: "int option"

subsection \<open>JavaScript idioms\<close>

text \<open>Truthiness of an optional boolean: \<^verbatim>\<open>undefined\<close> and \<^verbatim>\<open>false\<close> are falsy.\<close>

definition truthy :: "bool option \<Rightarrow> bool" where
  "truthy b = (b = Some True)"

text \<open>\<^verbatim>\<open>s || d\<close> on an optional string: \<^verbatim>\<open>undefined\<close> and the empty string are falsy.\<close>

definition or_else :: "string option \<Rightarrow> string \<Rightarrow> string" where
  "or_else s d = (case s of None \<Rightarrow> d | Some v \<Rightarrow> if v = [] then d else v)"

text \<open>\<^verbatim>\<open>Array.prototype.findIndex\<close>: \<open>None\<close> stands for \<^verbatim>\<open>-1\<close>.\<close>

fun findIndex :: "('a \<Rightarrow> bool) \<Rightarrow> 'a list \<Rightarrow> nat option" where
  "findIndex P [] = None"
| "findIndex P (x # xs) =
     (if P x then Some 0 else map_option Suc (findIndex P xs))"

text \<open>\<^verbatim>\<open>xs.splice(i, 1)\<close> on a copy: the list without its element at index \<open>i\<close>.\<close>

definition splice1 :: "nat \<Rightarrow> 'a list \<Rightarrow> 'a list" where
  "splice1 i xs = take i xs @ drop (Suc i) xs"

text \<open>
  \<^verbatim>\<open>prev[k] || []\<close> on the message store, for a key that has an own entry or names
  nothing that an object inherits.
\<close>

definition msgs_of :: "(string \<rightharpoonup> Message list) \<Rightarrow> string \<Rightarrow> Message list" where
  "msgs_of ms k = (case ms k of None \<Rightarrow> [] | Some l \<Rightarrow> l)"

datatype error = TypeError

text \<open>
  The message store is a plain object, so \<^verbatim>\<open>prev[k]\<close> also finds what every object
  inherits from \<^verbatim>\<open>Object.prototype\<close>: under these names a store without an own entry
  yields a function or an object, which is truthy and not iterable.
\<close>

definition Object_prototype_keys :: "string list" where
  "Object_prototype_keys =
     [''constructor'', ''__defineGetter__'', ''__defineSetter__'', ''hasOwnProperty'',
      ''__lookupGetter__'', ''__lookupSetter__'', ''isPrototypeOf'',
      ''propertyIsEnumerable'', ''toString'', ''valueOf'', ''__proto__'',
      ''toLocaleString'']"

text \<open>
  \<^verbatim>\<open>[...(prev[k] || [])]\<close> and \<^verbatim>\<open>(messages[k] || []).filter(...)\<close>: the messages of an
  own entry; a \<^verbatim>\<open>TypeError\<close> when there is no own entry and \<open>k\<close> names an inherited
  property (what is found is neither iterable nor an array); the empty list otherwise.
\<close>

definition entry_or_empty :: "(string \<rightharpoonup> Message list) \<Rightarrow> string \<Rightarrow> error + Message list" where
  "entry_or_empty ms k =
     (case ms k of
        Some l \<Rightarrow> Inr l
      | None \<Rightarrow> if k \<in> set Object_prototype_keys then Inl TypeError else Inr [])"

subsection \<open>The channel adapter (\<^verbatim>\<open>ChatSocket\<close>)\<close>

text \<open>What the adapter emits on the connection, one constructor per outbound event.\<close>

datatype emission =
    REGISTER UserProfile
  | PRESENCE string
  | SEND_MESSAGE Message "bool option"
  | REDEEM_PROMO string string
  | ADMIN_GET_ALL_DATA string
  | MESSAGE_READ string "string list" "string option"

text \<open>
  The adapter's fields; \<open>connected\<close> is \<^verbatim>\<open>this.socket && this.socket.connected\<close>, and
  \<open>emitted\<close> lists what has been emitted on the connection, oldest first.
\<close>

record ChatSocket =
  connected :: bool
  myUserId :: "string option"
  myProfile :: "UserProfile option"
  emitted :: "emission list"

definition emit :: "emission \<Rightarrow> ChatSocket \<Rightarrow> ChatSocket" where
  "emit e s = s\<lparr>emitted := emitted s @ [e]\<rparr>"

definition registerUser :: "UserProfile \<Rightarrow> ChatSocket \<Rightarrow> ChatSocket" where
  "registerUser profile s =
     (let s1 = s\<lparr>myUserId := Some (u_id profile), myProfile := Some profile\<rparr>
      in if connected s1 then emit (REGISTER profile) s1 else s1)"

definition sendReadReceipt :: "string \<Rightarrow> string list \<Rightarrow> ChatSocket \<Rightarrow> ChatSocket" where
  "sendReadReceipt chatId messageIds s =
     (if connected s then emit (MESSAGE_READ chatId messageIds (myUserId s)) s else s)"

text \<open>
  \<^verbatim>\<open>sendMessage\<close>: the emitted message goes to \<^verbatim>\<open>chatId\<close> for a group and to
  \<^verbatim>\<open>toUserId\<close> otherwise, and carries \<^verbatim>\<open>this.myUserId\<close> as its sender id.
\<close>

definition apply_attachment :: "Attachment option \<Rightarrow> Message \<Rightarrow> Message" where
  "apply_attachment att m =
     (case att of
        None \<Rightarrow> m
      | Some a \<Rightarrow> m\<lparr>m_type := Some (a_type a), m_mediaUrl := Some (a_mediaUrl a),
                    m_fileName := a_fileName a, m_fileSize := a_fileSize a,
                    m_duration := a_duration a\<rparr>)"

text \<open>\<^verbatim>\<open>Date.now().toString()\<close>: the decimal numeral of an integer.\<close>

function show_nat :: "nat \<Rightarrow> string" where
  "show_nat n =
     (if n < 10 then [char_of (48 + n)]
      else show_nat (n div 10) @ [char_of (48 + n mod 10)])"
  by pat_completeness auto
termination
  by (relation "measure (\<lambda>n. n)") auto

declare show_nat.simps [simp del]

definition toString :: "int \<Rightarrow> string" where
  "toString n = (if n < 0 then CHR ''-'' # show_nat (nat (- n)) else show_nat (nat n))"

definition sendMessage ::
  "int \<Rightarrow> string \<Rightarrow> string \<Rightarrow> string \<Rightarrow> bool option \<Rightarrow> Attachment option \<Rightarrow>
   ChatSocket \<Rightarrow> ChatSocket" where
  "sendMessage now chatId text toUserId isGroup attachment s =
     (let msg = apply_attachment attachment
            \<lparr>m_id = toString now, m_chatId = chatId, m_text = text, m_sender = Me,
             m_senderId = Some (or_else (myUserId s) ''me''), m_timestamp = now,
             m_status = Sent, m_type = None, m_mediaUrl = None, m_fileName = None,
             m_fileSize = None, m_duration = None\<rparr>
      in if connected s
         then emit (SEND_MESSAGE
                (msg\<lparr>m_chatId := (if truthy isGroup then chatId else toUserId),
                     m_senderId := myUserId s\<rparr>) isGroup) s
         else s)"

subsection \<open>The controller's state (\<^verbatim>\<open>App.tsx\<close>)\<close>

text \<open>
  The pieces of React state, refs and browser storage that the handlers read and write.
  \<open>localStorage\<close> maps a storage key to the stored text.
\<close>

record app_state =
  chats :: "ChatPreview list"
  messages :: "string \<rightharpoonup> Message list"
  activeChatId :: "string option"
  viewingProfileId :: "string option"
  userProfile :: UserProfile
  accounts :: "UserProfile list"
  showRegistration :: bool
  typingMap :: "string \<rightharpoonup> bool"
  adminMessages :: "Message list"
  isLoadingAdmin :: bool
  userDirectory :: "string \<rightharpoonup> UserProfile"
  socketRef :: "ChatSocket option"
  localStorage :: "string \<rightharpoonup> string"

text \<open>
  What a handler keeps of the render that defined it: the active conversation, the id and
  the username of the local profile, and the chat list of that render. \<open>render_of\<close> is the render of a state.
\<close>

record render =
  cl_activeChatId :: "string option"
  cl_userId :: string
  cl_username :: string
  cl_chats :: "ChatPreview list"

definition render_of :: "app_state \<Rightarrow> render" where
  "render_of st =
     \<lparr>cl_activeChatId = activeChatId st, cl_userId = u_id (userProfile st),
      cl_username = u_username (userProfile st), cl_chats = chats st\<rparr>"

text \<open>
  \<^verbatim>\<open>JSON.stringify\<close> and \<^verbatim>\<open>JSON.parse\<close> belong to the JavaScript runtime, not to the
  repository: they are parameters of the handlers that use them, restricted to the one
  type the controller stores under a chat-list key. \<open>parse\<close> returns \<open>None\<close> where
  \<^verbatim>\<open>JSON.parse\<close> throws.
\<close>

record JSON =
  stringify :: "ChatPreview list \<Rightarrow> string"
  parse :: "string \<Rightarrow> ChatPreview list option"

text \<open>The entries of \<^verbatim>\<open>translations[lang]\<close> that the handlers read.\<close>

record Translations =
  contactJoined :: string

definition CHATS_PREFIX :: string where
  "CHATS_PREFIX = ''redgram_chats_''"

text \<open>\<^verbatim>\<open>INITIAL_CHATS\<close>; \<open>t0\<close> is the value of \<^verbatim>\<open>Date.now()\<close> when the module was loaded.\<close>

definition INITIAL_CHATS :: "int \<Rightarrow> ChatPreview list" where
  "INITIAL_CHATS t0 =
     [\<lparr>c_id = ''1'', c_name = ''Saved Messages'', c_avatar = None,
       c_color = ''bg-sky-500 text-white'', c_lastMessage = ''Cloud storage'',
       c_timestamp = t0, c_unreadCount = 0, c_isOnline = True, c_isBot = None,
       c_isGroup = None, c_username = Some ''saved_messages'',
       c_bio = Some ''Your personal cloud storage.'', c_phone = None, c_muted = None,
       c_isAdmin = None, c_membersCount = None, c_sender = Some Me, c_memberIds = None\<rparr>,
      \<lparr>c_id = ''2'', c_name = ''Gemini AI'', c_avatar = None,
       c_color = ''bg-gradient-to-br from-blue-500 to-purple-500 text-white'',
       c_lastMessage = ''I am ready to help.'', c_timestamp = t0, c_unreadCount = 1,
       c_isOnline = True, c_isBot = Some True, c_isGroup = None,
       c_username = Some ''gemini_bot'',
       c_bio = Some ''I am a large language model, trained by Google. Ask me anything!'',
       c_phone = None, c_muted = None, c_isAdmin = None, c_membersCount = None,
       c_sender = Some Them, c_memberIds = None\<rparr>]"

subsection \<open>Per-account chat cache\<close>

text \<open>
  \<^verbatim>\<open>loadChatsForUser\<close>: the stored text is parsed when it is there and truthy (not the
  empty string); a missing entry and a parse failure both give \<^verbatim>\<open>INITIAL_CHATS\<close>.
\<close>

definition loadChatsForUser ::
  "JSON \<Rightarrow> int \<Rightarrow> (string \<rightharpoonup> string) \<Rightarrow> string \<Rightarrow> ChatPreview list" where
  "loadChatsForUser J t0 storage userId =
     (case storage (CHATS_PREFIX @ userId) of
        None \<Rightarrow> INITIAL_CHATS t0
      | Some saved \<Rightarrow>
          if saved = [] then INITIAL_CHATS t0
          else (case parse J saved of None \<Rightarrow> INITIAL_CHATS t0 | Some cs \<Rightarrow> cs))"

definition handleSwitchAccount :: "JSON \<Rightarrow> int \<Rightarrow> UserProfile \<Rightarrow> app_state \<Rightarrow> app_state" where
  "handleSwitchAccount J t0 newProfile st =
     (let storage = (localStorage st)
            (CHATS_PREFIX @ u_id (userProfile st) \<mapsto> stringify J (chats st));
          newChats = loadChatsForUser J t0 storage (u_id newProfile)
      in st\<lparr>activeChatId := None, viewingProfileId := None, localStorage := storage,
            userProfile := newProfile, chats := newChats\<rparr>)"

text \<open>
  The persistence effect on \<^verbatim>\<open>[chats, userProfile.id]\<close>, which React runs after a render
  in which either has changed.
\<close>

definition persist_chats_effect :: "JSON \<Rightarrow> app_state \<Rightarrow> app_state" where
  "persist_chats_effect J st =
     (if u_id (userProfile st) \<noteq> [] \<and> \<not> showRegistration st
      then st\<lparr>localStorage := (localStorage st)
                 (CHATS_PREFIX @ u_id (userProfile st) \<mapsto> stringify J (chats st))\<rparr>
      else st)"

subsection \<open>Inbound messages\<close>

text \<open>
  \<^verbatim>\<open>handleIncomingMessage\<close>. The target conversation is the sender id
  (\<^verbatim>\<open>msg.senderId || 'unknown'\<close>) when the message is addressed to the username of the
  handler's render, and the message's own conversation id otherwise. The username and
  the active conversation are those of the handler's render \<open>cl\<close>; the store and the
  chat list are those of the state, which the two updaters receive as \<^verbatim>\<open>prev\<close>. When the
  spread of the first updater raises, no state is committed.
\<close>

definition targetChatId :: "string \<Rightarrow> Message \<Rightarrow> string" where
  "targetChatId username msg =
     (if m_chatId msg = username then or_else (m_senderId msg) ''unknown''
      else m_chatId msg)"

definition newChat_incoming :: "(string \<rightharpoonup> UserProfile) \<Rightarrow> string \<Rightarrow> Message \<Rightarrow> ChatPreview" where
  "newChat_incoming directory target msg =
     (let senderInfo = directory target
      in \<lparr>c_id = target,
          c_name = (case senderInfo of Some info \<Rightarrow> u_name info
                    | None \<Rightarrow> or_else (Some target) ''Unknown''),
          c_avatar = None,
          c_color = (case senderInfo of Some info \<Rightarrow> u_avatarColor info
                     | None \<Rightarrow> ''bg-gray-500''),
          c_lastMessage = m_text msg, c_timestamp = m_timestamp msg, c_unreadCount = 1,
          c_isOnline = True, c_isBot = Some False, c_isGroup = None,
          c_username = Some target, c_bio = None, c_phone = None, c_muted = None,
          c_isAdmin = None, c_membersCount = None, c_sender = Some Them,
          c_memberIds = None\<rparr>)"

definition updatedChat_incoming :: "bool \<Rightarrow> Message \<Rightarrow> ChatPreview \<Rightarrow> ChatPreview" where
  "updatedChat_incoming isActive msg chat =
     chat\<lparr>c_lastMessage := m_text msg, c_timestamp := m_timestamp msg,
          c_unreadCount := (if isActive then c_unreadCount chat else c_unreadCount chat + 1),
          c_sender := Some (m_sender msg)\<rparr>"

definition handleIncomingMessage :: "render \<Rightarrow> Message \<Rightarrow> app_state \<Rightarrow> error + app_state" where
  "handleIncomingMessage cl msg st =
     (let target = targetChatId (cl_username cl) msg
      in case entry_or_empty (messages st) target of
           Inl e \<Rightarrow> Inl e
         | Inr old \<Rightarrow>
             let messages' = (messages st)(target \<mapsto> old @ [msg]);
                 prev = chats st;
                 chats' =
                   (case findIndex (\<lambda>c. c_id c = target) prev of
                      None \<Rightarrow> newChat_incoming (userDirectory st) target msg # prev
                    | Some chatIndex \<Rightarrow>
                        updatedChat_incoming (cl_activeChatId cl = Some target) msg
                          (prev ! chatIndex)
                          # splice1 chatIndex prev)
             in Inr (st\<lparr>messages := messages', chats := chats'\<rparr>))"

definition handleSelectChat :: "string \<Rightarrow> app_state \<Rightarrow> app_state" where
  "handleSelectChat chatId st =
     st\<lparr>activeChatId := Some chatId,
        chats := map (\<lambda>c. if c_id c = chatId then c\<lparr>c_unreadCount := 0\<rparr> else c) (chats st)\<rparr>"

subsection \<open>Read receipts\<close>

text \<open>
  The read-receipts effect on \<^verbatim>\<open>[activeChatId, messages]\<close>. It does nothing unless
  \<^verbatim>\<open>activeChatId\<close> is truthy (set, and not the empty string) and the socket ref is set.
  \<^verbatim>\<open>prev[activeChatId]\<close> is an own entry where the effect maps over it, since unread
  messages were found under that key. The effect is defined anew in every render and
  reads the current state.
\<close>

definition isMine :: "UserProfile \<Rightarrow> Message \<Rightarrow> bool" where
  "isMine me m = (m_senderId m = Some (u_username me) \<or> m_sender m = Me)"

definition markRead :: "string list \<Rightarrow> Message list \<Rightarrow> Message list" where
  "markRead ids ms = map (\<lambda>m. if m_id m \<in> set ids then m\<lparr>m_status := Read\<rparr> else m) ms"

definition unreadMessages :: "UserProfile \<Rightarrow> Message list \<Rightarrow> Message list" where
  "unreadMessages me chatMessages =
     filter (\<lambda>m. \<not> isMine me m \<and> m_status m \<noteq> Read) chatMessages"

definition read_receipts_effect :: "app_state \<Rightarrow> error + app_state" where
  "read_receipts_effect st =
     (case activeChatId st of
        None \<Rightarrow> Inr st
      | Some active \<Rightarrow>
          if active = [] then Inr st
          else (case socketRef st of
                  None \<Rightarrow> Inr st
                | Some sock \<Rightarrow>
                    (case entry_or_empty (messages st) active of
                       Inl e \<Rightarrow> Inl e
                     | Inr chatMessages \<Rightarrow>
                         let unread = unreadMessages (userProfile st) chatMessages
                         in if unread \<noteq> []
                            then let idsToMark = map m_id unread
                                 in Inr (st\<lparr>messages := (messages st)
                                            (active \<mapsto> markRead idsToMark chatMessages),
                                          socketRef := Some (sendReadReceipt active idsToMark sock),
                                          chats := map (\<lambda>c. if c_id c = active
                                                             then c\<lparr>c_unreadCount := 0\<rparr> else c)
                                                     (chats st)\<rparr>)
                            else Inr st)))"

text \<open>
  \<^verbatim>\<open>handleReadReceipt\<close>: the receipt addresses \<^verbatim>\<open>chatId\<close> when that is a group of the
  chat list of the handler's render, and the reader's id otherwise.
\<close>

definition handleReadReceipt ::
  "render \<Rightarrow> string \<Rightarrow> string list \<Rightarrow> string \<Rightarrow> app_state \<Rightarrow> app_state" where
  "handleReadReceipt cl chatId messageIds readerId st =
     (let potentialGroup = find (\<lambda>c. c_id c = chatId \<and> truthy (c_isGroup c)) (cl_chats cl);
          targetLocalChatId = (if potentialGroup = None then readerId else chatId)
      in case messages st targetLocalChatId of
           None \<Rightarrow> st
         | Some currentList \<Rightarrow>
             if \<not> list_ex (\<lambda>m. m_id m \<in> set messageIds \<and> m_status m \<noteq> Read) currentList
             then st
             else st\<lparr>messages := (messages st)
                       (targetLocalChatId \<mapsto> markRead messageIds currentList)\<rparr>)"

subsection \<open>Directory sync and peer-joined\<close>

text \<open>The Chat Preview that both handlers build for a discovered peer.\<close>

definition newContact :: "int \<Rightarrow> UserProfile \<Rightarrow> ChatPreview" where
  "newContact now u =
     \<lparr>c_id = u_username u, c_name = u_name u, c_avatar = None, c_color = u_avatarColor u,
      c_lastMessage = [], c_timestamp = now, c_unreadCount = 0, c_isOnline = True,
      c_isBot = Some False, c_isGroup = None, c_username = Some (u_username u),
      c_bio = Some (u_bio u), c_phone = Some (u_phone u), c_muted = None, c_isAdmin = None,
      c_membersCount = None, c_sender = None, c_memberIds = None\<rparr>"

text \<open>
  The \<^verbatim>\<open>users.forEach\<close> loop of \<^verbatim>\<open>handleUserSync\<close> over the copy \<^verbatim>\<open>newChats\<close>: a
  peer is pushed unless its username is \<open>self\<close> (the username of the handler's render)
  or a chat of the growing list already carries its username.
\<close>

fun sync_chats :: "int \<Rightarrow> string \<Rightarrow> UserProfile list \<Rightarrow> ChatPreview list \<Rightarrow> ChatPreview list" where
  "sync_chats now self [] newChats = newChats"
| "sync_chats now self (u # us) newChats =
     (if u_username u = self then sync_chats now self us newChats
      else if find (\<lambda>c. c_username c = Some (u_username u)) newChats = None
      then sync_chats now self us (newChats @ [newContact now u])
      else sync_chats now self us newChats)"

definition handleUserSync :: "render \<Rightarrow> int \<Rightarrow> UserProfile list \<Rightarrow> app_state \<Rightarrow> app_state" where
  "handleUserSync cl now users' st =
     st\<lparr>userDirectory := fold (\<lambda>u d. d(u_username u \<mapsto> u)) users' (userDirectory st),
        chats := sync_chats now (cl_username cl) users' (chats st)\<rparr>"

definition systemMsg :: "int \<Rightarrow> Translations \<Rightarrow> UserProfile \<Rightarrow> Message" where
  "systemMsg now t profile =
     \<lparr>m_id = toString now, m_chatId = u_username profile, m_text = contactJoined t,
      m_sender = Them, m_senderId = Some ''system'', m_timestamp = now, m_status = Read,
      m_type = None, m_mediaUrl = None, m_fileName = None, m_fileSize = None,
      m_duration = None\<rparr>"

definition handleNewUserJoined ::
  "render \<Rightarrow> int \<Rightarrow> Translations \<Rightarrow> UserProfile \<Rightarrow> app_state \<Rightarrow> app_state" where
  "handleNewUserJoined cl now t profile st =
     (let st1 = st\<lparr>userDirectory := (userDirectory st)(u_username profile \<mapsto> profile)\<rparr>
      in if u_username profile = cl_username cl then st1
         else if find (\<lambda>c. c_username c = Some (u_username profile)) (chats st) \<noteq> None
         then st1
         else st1\<lparr>messages := (messages st)(u_username profile \<mapsto> [systemMsg now t profile]),
                  chats := newContact now profile # chats st\<rparr>)"

subsection \<open>The subscription handler\<close>

text \<open>The notifications that the adapter hands to its listeners.\<close>

datatype notification =
    N_STATUS string
  | N_USER_SYNC "UserProfile list"
  | N_USER_JOINED UserProfile
  | N_NEW_MESSAGE Message
  | N_MESSAGE_READ string "string list" string
  | N_USER_UPDATED UserProfile
  | N_ADMIN_DATA "Message list"

text \<open>\<^verbatim>\<open>{ ...prev, ...profile }\<close>: a field that \<^verbatim>\<open>profile\<close> lacks keeps its old value.\<close>

definition keep :: "'a option \<Rightarrow> 'a option \<Rightarrow> 'a option" where
  "keep old new = (case new of None \<Rightarrow> old | Some v \<Rightarrow> Some v)"

definition merge_profile :: "UserProfile \<Rightarrow> UserProfile \<Rightarrow> UserProfile" where
  "merge_profile prev profile =
     profile\<lparr>u_isPremium := keep (u_isPremium prev) (u_isPremium profile),
             u_isAdmin := keep (u_isAdmin prev) (u_isAdmin profile),
             u_privacy := keep (u_privacy prev) (u_privacy profile)\<rparr>"

text \<open>
  The listener that the controller subscribes, with the render \<open>cl\<close> in which the effect
  on \<^verbatim>\<open>[userProfile.id, showRegistration]\<close> ran: a \<^verbatim>\<open>NEW_MESSAGE\<close> reaches
  \<^verbatim>\<open>handleIncomingMessage\<close> only when its sender id differs from the username of that
  render.
\<close>

definition subscribe_handler ::
  "render \<Rightarrow> int \<Rightarrow> Translations \<Rightarrow> notification \<Rightarrow> app_state \<Rightarrow> error + app_state" where
  "subscribe_handler cl now t data st =
     (case data of
        N_NEW_MESSAGE msg \<Rightarrow>
          if m_senderId msg \<noteq> Some (cl_username cl)
          then handleIncomingMessage cl msg st else Inr st
      | N_USER_JOINED profile \<Rightarrow> Inr (handleNewUserJoined cl now t profile st)
      | N_USER_SYNC us \<Rightarrow> Inr (handleUserSync cl now us st)
      | N_MESSAGE_READ chatId messageIds readerId \<Rightarrow>
          Inr (handleReadReceipt cl chatId messageIds readerId st)
      | N_USER_UPDATED profile \<Rightarrow>
          Inr (if u_id profile = cl_userId cl
               then st\<lparr>userProfile := merge_profile (userProfile st) profile,
                       accounts := map (\<lambda>acc. if u_id acc = u_id profile
                                              then merge_profile acc profile else acc)
                                     (accounts st)\<rparr>
               else st)
      | N_ADMIN_DATA ms \<Rightarrow> Inr (st\<lparr>adminMessages := ms, isLoadingAdmin := False\<rparr>)
      | N_STATUS s \<Rightarrow> Inr st)"

text \<open>
  The effect on \<^verbatim>\<open>[userProfile.id, showRegistration]\<close> itself: it opens a new adapter,
  registers the profile under its username as id when the session is past registration
  and has a username, and subscribes the listener of the current render. The result is the
  state with the new adapter, and the render that the listener keeps.
\<close>

definition subscription_effect :: "app_state \<Rightarrow> app_state \<times> render" where
  "subscription_effect st =
     (let socket = \<lparr>connected = False, myUserId = None, myProfile = None, emitted = []\<rparr>;
          socket' =
            (if \<not> showRegistration st \<and> u_username (userProfile st) \<noteq> []
             then registerUser ((userProfile st)\<lparr>u_id := u_username (userProfile st)\<rparr>) socket
             else socket)
      in (st\<lparr>socketRef := Some socket'\<rparr>, render_of st))"

text \<open>
  What the relay makes of a \<^verbatim>\<open>SEND_MESSAGE\<close> before it broadcasts it as
  \<^verbatim>\<open>NEW_MESSAGE\<close> (\<^verbatim>\<open>server.js\<close>): the sender tag becomes \<^verbatim>\<open>them\<close>, the status \<^verbatim>\<open>sent\<close>.
\<close>

definition relay_broadcast :: "Message \<Rightarrow> Message" where
  "relay_broadcast msg = msg\<lparr>m_sender := Them, m_status := Sent\<rparr>"

subsection \<open>Outbound send and the conversational responder\<close>

text \<open>\<^verbatim>\<open>Math.min(Math.max(text.length * 30, 1500), 6000)\<close>, in milliseconds.\<close>

definition typing_delay :: "string \<Rightarrow> int" where
  "typing_delay text = min (max (int (length text) * 30) 1500) 6000"

text \<open>
  A reply that \<^verbatim>\<open>simulateTypingAndSend\<close> holds back behind its timer: the delay, and
  the arguments the function was called with.
\<close>

record pending_reply =
  p_delay :: int
  p_chatId :: string
  p_text :: string
  p_senderId :: "string option"

text \<open>
  The text generator (\<^verbatim>\<open>AIService.generateResponse\<close>) is a parameter: it maps the
  history, the last user text, the persona's name and its bio to the reply. It catches its
  own failures and always returns a string.
\<close>

type_synonym generator = "Message list \<Rightarrow> string \<Rightarrow> string \<Rightarrow> string \<Rightarrow> string"

definition userMsg :: "int \<Rightarrow> string \<Rightarrow> string \<Rightarrow> string \<Rightarrow> Attachment option \<Rightarrow> Message" where
  "userMsg now chatId text username attachment =
     apply_attachment attachment
       \<lparr>m_id = toString now, m_chatId = chatId, m_text = text, m_sender = Me,
        m_senderId = Some username, m_timestamp = now, m_status = Sent, m_type = None,
        m_mediaUrl = None, m_fileName = None, m_fileSize = None, m_duration = None\<rparr>"

text \<open>
  Step 3 of \<^verbatim>\<open>handleSendMessage\<close> for one member of a group: the group's entry in the
  member's stored chat list moves to the front with one more unread message. The write
  goes to storage at once, so the next member's load sees it.
\<close>

definition sync_member ::
  "JSON \<Rightarrow> int \<Rightarrow> int \<Rightarrow> string \<Rightarrow> UserProfile list \<Rightarrow> ChatPreview \<Rightarrow> string \<Rightarrow> string \<Rightarrow>
   (string \<rightharpoonup> string) \<Rightarrow> (string \<rightharpoonup> string)" where
  "sync_member J t0 now self accs chat text memberId storage =
     (if memberId = self then storage
      else (case find (\<lambda>a. u_id a = memberId \<or> u_username a = memberId) accs of
              None \<Rightarrow> storage
            | Some targetAcc \<Rightarrow>
                let targetChats = loadChatsForUser J t0 storage (u_id targetAcc)
                in (case findIndex (\<lambda>c. c_id c = c_id chat) targetChats of
                      None \<Rightarrow> storage
                    | Some groupIndex \<Rightarrow>
                        let groupChat = targetChats ! groupIndex;
                            updatedGroup = groupChat
                              \<lparr>c_lastMessage := text, c_timestamp := now,
                               c_unreadCount := c_unreadCount groupChat + 1,
                               c_sender := Some Them\<rparr>
                        in storage(CHATS_PREFIX @ u_id targetAcc \<mapsto>
                             stringify J (updatedGroup # splice1 groupIndex targetChats)))))"

text \<open>The mirror of a direct message into the chat list stored for a local account.\<close>

definition mirror_chats ::
  "int \<Rightarrow> UserProfile \<Rightarrow> string \<Rightarrow> ChatPreview list \<Rightarrow> ChatPreview list" where
  "mirror_chats now me text targetChats =
     (case findIndex (\<lambda>c. c_id c = u_username me) targetChats of
        None \<Rightarrow>
          \<lparr>c_id = u_username me, c_name = u_name me, c_avatar = None,
           c_color = u_avatarColor me, c_lastMessage = text, c_timestamp = now,
           c_unreadCount = 1, c_isOnline = True, c_isBot = Some False, c_isGroup = None,
           c_username = Some (u_username me), c_bio = None, c_phone = None, c_muted = None,
           c_isAdmin = None, c_membersCount = None, c_sender = Some Them,
           c_memberIds = None\<rparr> # targetChats
      | Some senderChatIndex \<Rightarrow>
          (let existing = targetChats ! senderChatIndex
           in existing\<lparr>c_lastMessage := text, c_timestamp := now,
                        c_unreadCount := c_unreadCount existing + 1,
                        c_sender := Some Them\<rparr>
                # splice1 senderChatIndex targetChats))"

text \<open>
  \<^verbatim>\<open>handleSendMessage\<close> up to its first suspension, with \<^verbatim>\<open>generateBotResponse\<close> and
  \<^verbatim>\<open>simulateTypingAndSend\<close> inlined up to the timer. The result is the state and the
  replies that wait behind a timer. The early returns give the state back unchanged.
  The function is called from the current render, so what it reads are the values of the
  state at the call.
  The array that \<^verbatim>\<open>loadChatsForUser\<close> returns is changed in place by the source; the model
  follows the value that is written to storage (an array that is \<^verbatim>\<open>INITIAL_CHATS\<close> itself
  is shared with that constant, which the model does not follow).
\<close>

definition handleSendMessage ::
  "JSON \<Rightarrow> generator \<Rightarrow> int \<Rightarrow> int \<Rightarrow> string \<Rightarrow> Attachment option \<Rightarrow> app_state \<Rightarrow>
   app_state \<times> pending_reply list" where
  "handleSendMessage J ai t0 now text attachment st =
     (case activeChatId st of
        None \<Rightarrow> (st, [])
      | Some active \<Rightarrow>
        if active = [] then (st, [])
        else (case socketRef st of
          None \<Rightarrow> (st, [])
        | Some sock \<Rightarrow>
          (case find (\<lambda>c. c_id c = active) (chats st) of
            None \<Rightarrow> (st, [])
          | Some chat \<Rightarrow>
            let me = userProfile st;
                sock' = sendMessage now active text (c_id chat) (c_isGroup chat) attachment sock;
                uMsg = userMsg now active text (u_username me) attachment;
                messages1 = (messages st)(active \<mapsto> msgs_of (messages st) active @ [uMsg]);
                chats1 =
                  (case findIndex (\<lambda>c. c_id c = active) (chats st) of
                     None \<Rightarrow> chats st
                   | Some chatIndex \<Rightarrow>
                       (chats st ! chatIndex)
                         \<lparr>c_lastMessage := text, c_timestamp := now, c_sender := Some Me\<rparr>
                       # splice1 chatIndex (chats st));
                storage1 =
                  (case c_memberIds chat of
                     Some memberIds \<Rightarrow>
                       if truthy (c_isGroup chat)
                       then fold (sync_member J t0 now (u_username me) (accounts st) chat text)
                              memberIds (localStorage st)
                       else localStorage st
                   | None \<Rightarrow> localStorage st);
                targetAccount = find (\<lambda>acc. u_id acc = active) (accounts st);
                storage2 =
                  (case targetAccount of
                     None \<Rightarrow> storage1
                   | Some acc \<Rightarrow>
                       storage1(CHATS_PREFIX @ u_id acc \<mapsto>
                         stringify J (mirror_chats now me text
                           (loadChatsForUser J t0 storage1 (u_id acc)))));
                messages2 =
                  (case targetAccount of
                     None \<Rightarrow> messages1
                   | Some acc \<Rightarrow>
                       messages1(u_username me \<mapsto> msgs_of messages1 (u_username me)
                         @ [uMsg\<lparr>m_sender := Them, m_chatId := u_username me\<rparr>]));
                st2 = st\<lparr>socketRef := Some sock', messages := messages2, chats := chats1,
                         localStorage := storage2\<rparr>
            in if truthy (c_isBot chat) \<and> \<not> truthy (c_isGroup chat) \<and> c_id chat \<noteq> ''1''
               then let historyForAI = msgs_of (messages st) active @ [uMsg];
                        lastMsgText = m_text (last historyForAI);
                        finalBio = or_else (c_bio chat) ''A helpful assistant'';
                        responseText = ai historyForAI lastMsgText (c_name chat) finalBio
                    in (st2\<lparr>typingMap := (typingMap st2)(active \<mapsto> True)\<rparr>,
                        [\<lparr>p_delay = typing_delay responseText, p_chatId = active,
                          p_text = responseText, p_senderId = Some (c_id chat)\<rparr>])
               else (st2, []))))"

text \<open>
  The rest of \<^verbatim>\<open>simulateTypingAndSend\<close>, run when the timer fires at time \<open>now\<close>: the
  reply goes through the \<^verbatim>\<open>handleIncomingMessage\<close> of the render \<open>cl\<close> in which the
  message was sent; then the \<^verbatim>\<open>finally\<close> block of \<^verbatim>\<open>generateBotResponse\<close> clears the
  typing flag, also when the handler has raised and left chat list and store as they were.
\<close>

definition botMsg :: "int \<Rightarrow> pending_reply \<Rightarrow> Message" where
  "botMsg now p =
     \<lparr>m_id = toString now, m_chatId = p_chatId p, m_text = p_text p, m_sender = Them,
      m_senderId = p_senderId p, m_timestamp = now, m_status = Read, m_type = None,
      m_mediaUrl = None, m_fileName = None, m_fileSize = None, m_duration = None\<rparr>"

definition deliver_reply :: "render \<Rightarrow> int \<Rightarrow> pending_reply \<Rightarrow> app_state \<Rightarrow> app_state" where
  "deliver_reply cl now p st =
     (let st1 = (case handleIncomingMessage cl (botMsg now p) st of
                   Inl e \<Rightarrow> st
                 | Inr st' \<Rightarrow> st')
      in st1\<lparr>typingMap := (typingMap st1)(p_chatId p \<mapsto> False)\<rparr>)"

subsection \<open>The relay's promo-code handler (\<^verbatim>\<open>server.js\<close>)\<close>

text \<open>
  The tables that the handler reads and writes, keyed by their primary keys:
  \<^verbatim>\<open>users\<close> by id, \<^verbatim>\<open>promo_codes\<close> by code, \<^verbatim>\<open>user_promo_usage\<close> by the pair of user id
  and code.
\<close>

record user_row =
  r_id :: string
  r_username :: string
  r_name :: string
  r_bio :: string
  r_phone :: string
  r_avatarColor :: string
  r_isPremium :: int
  r_isAdmin :: int

record promo_row =
  max_uses :: int
  current_uses :: int

record database =
  users :: "string \<rightharpoonup> user_row"
  promo_codes :: "string \<rightharpoonup> promo_row"
  user_promo_usage :: "(string \<times> string) set"

text \<open>The profile that the relay sends out: the row with its two flags as booleans.\<close>

definition updatedProfile :: "user_row \<Rightarrow> UserProfile" where
  "updatedProfile row =
     \<lparr>u_id = r_id row, u_name = r_name row, u_username = r_username row,
      u_phone = r_phone row, u_bio = r_bio row, u_avatarColor = r_avatarColor row,
      u_isPremium = Some (r_isPremium row \<noteq> 0), u_isAdmin = Some (r_isAdmin row \<noteq> 0),
      u_privacy = None\<rparr>"

datatype server_event =
    PROMO_RESULT bool string
  | USER_UPDATED UserProfile

datatype recipient = To_socket | To_broadcast

text \<open>
  The \<^verbatim>\<open>REDEEM_PROMO\<close> handler, its callbacks run in sequence. \<open>update_err\<close> says whether
  the storage engine reports an error for the \<^verbatim>\<open>UPDATE users\<close> statement (the statement
  violates no constraint of the schema, so this is a failure of the engine itself). The
  result is the database and the events sent, oldest first.
\<close>

definition redeem_promo ::
  "bool \<Rightarrow> string \<Rightarrow> string \<Rightarrow> database \<Rightarrow> database \<times> (recipient \<times> server_event) list" where
  "redeem_promo update_err userId code db =
     (case promo_codes db code of
        None \<Rightarrow> (db, [(To_socket, PROMO_RESULT False ''Invalid code'')])
      | Some promo \<Rightarrow>
          if (userId, code) \<in> user_promo_usage db
          then (db, [(To_socket, PROMO_RESULT False ''Code already used by you'')])
          else if update_err
          then (db, [(To_socket, PROMO_RESULT False ''Database error'')])
          else
            let users1 = (case users db userId of
                            None \<Rightarrow> users db
                          | Some row \<Rightarrow> (users db)(userId \<mapsto> row\<lparr>r_isPremium := 1\<rparr>));
                db1 = db\<lparr>users := users1,
                         user_promo_usage := insert (userId, code) (user_promo_usage db),
                         promo_codes := (promo_codes db)
                           (code \<mapsto> promo\<lparr>current_uses := current_uses promo + 1\<rparr>)\<rparr>
            in (db1,
                (To_socket, PROMO_RESULT True ''Premium Activated!'') #
                (case users1 userId of
                   None \<Rightarrow> []
                 | Some row \<Rightarrow> [(To_socket, USER_UPDATED (updatedProfile row)),
                                (To_broadcast, USER_UPDATED (updatedProfile row))])))"

subsection \<open>The controller's operations as one step function\<close>

text \<open>
  The operations that touch the message store: inbound message handling, read-receipt
  application, the read-marking effect, the outbound send and the delivery of a held-back
  reply, the first two and the last with the render of their handler. \<open>step\<close> runs one
  of them; the outbound send drops its list of held-back replies here, and a handler or
  effect that raises leaves the state as it was.
\<close>

datatype controller_op =
    Op_incoming render Message
  | Op_read_receipt render string "string list" string
  | Op_read_effect
  | Op_send int string "Attachment option"
  | Op_deliver render int pending_reply

definition step :: "JSON \<Rightarrow> generator \<Rightarrow> int \<Rightarrow> controller_op \<Rightarrow> app_state \<Rightarrow> app_state" where
  "step J ai t0 op st =
     (case op of
        Op_incoming cl msg \<Rightarrow>
          (case handleIncomingMessage cl msg st of Inl e \<Rightarrow> st | Inr st' \<Rightarrow> st')
      | Op_read_receipt cl chatId messageIds readerId \<Rightarrow>
          handleReadReceipt cl chatId messageIds readerId st
      | Op_read_effect \<Rightarrow>
          (case read_receipts_effect st of Inl e \<Rightarrow> st | Inr st' \<Rightarrow> st')
      | Op_send now text attachment \<Rightarrow> fst (handleSendMessage J ai t0 now text attachment st)
      | Op_deliver cl now p \<Rightarrow> deliver_reply cl now p st)"

subsection \<open>Example values\<close>

text \<open>
  The session of the spec's scenario: account \<open>alice\<close> has registered and is connected;
  \<open>bob\<close> is a peer. They serve the closed instances of the theorems below.
\<close>

definition INITIAL_MESSAGES :: "int \<Rightarrow> (string \<rightharpoonup> Message list)" where
  "INITIAL_MESSAGES t0 =
     [''1'' \<mapsto> [],
      ''2'' \<mapsto> [\<lparr>m_id = ''m3'', m_chatId = ''2'',
                  m_text = ''Hello! I am Gemini. How can I assist you today?'',
                  m_sender = Them, m_senderId = Some ''2'', m_timestamp = t0,
                  m_status = Read, m_type = None, m_mediaUrl = None, m_fileName = None,
                  m_fileSize = None, m_duration = None\<rparr>]]"

definition ex_profile :: "string \<Rightarrow> string \<Rightarrow> UserProfile" where
  "ex_profile name username =
     \<lparr>u_id = username, u_name = name, u_username = username, u_phone = [],
      u_bio = ''Hi! I am new here.'',
      u_avatarColor = ''bg-gradient-to-br from-red-500 to-orange-500'',
      u_isPremium = Some False, u_isAdmin = None,
      u_privacy = Some \<lparr>profilePhoto = Everybody, phoneNumber = Some Nobody,
                        lastSeen = Some Everybody, stories = Some Everybody\<rparr>\<rparr>"

definition ex_alice :: UserProfile where
  "ex_alice = ex_profile ''Alice'' ''alice''"

definition ex_bob :: UserProfile where
  "ex_bob = ex_profile ''Bob'' ''bob''"

definition ex_sock :: "bool \<Rightarrow> ChatSocket" where
  "ex_sock online =
     \<lparr>connected = online, myUserId = Some ''alice'', myProfile = Some ex_alice,
      emitted = []\<rparr>"

definition ex_state :: "bool \<Rightarrow> app_state" where
  "ex_state online =
     \<lparr>chats = INITIAL_CHATS 0, messages = INITIAL_MESSAGES 0, activeChatId = None,
      viewingProfileId = None, userProfile = ex_alice, accounts = [ex_alice, ex_bob],
      showRegistration = False, typingMap = Map.empty, adminMessages = [],
      isLoadingAdmin = False, userDirectory = Map.empty,
      socketRef = Some (ex_sock online), localStorage = Map.empty\<rparr>"

definition ex_msg :: "string \<Rightarrow> string \<Rightarrow> string option \<Rightarrow> Message" where
  "ex_msg mid chatId senderId =
     \<lparr>m_id = mid, m_chatId = chatId, m_text = ''hi'', m_sender = Them,
      m_senderId = senderId, m_timestamp = 7, m_status = Sent, m_type = None,
      m_mediaUrl = None, m_fileName = None, m_fileSize = None, m_duration = None\<rparr>"

text \<open>
  The chat list of \<open>alice\<close> once the directory has shown her \<open>bob\<close>, and a codec for the
  closed instances: it writes and reads back this chat list and the empty one.
\<close>

definition ex_chats :: "ChatPreview list" where
  "ex_chats = INITIAL_CHATS 0 @ [newContact 8 ex_bob]"

definition ex_JSON :: JSON where
  "ex_JSON =
     \<lparr>stringify = (\<lambda>cs. if cs = ex_chats then ''[1,2,bob]'' else ''[]''),
      parse = (\<lambda>s. if s = ''[1,2,bob]'' then Some ex_chats
                    else if s = ''[]'' then Some [] else None)\<rparr>"

definition ex_ai :: generator where
  "ex_ai history userPrompt personaName personaBio =
     ''(Mock Response from '' @ personaName @ '') That's interesting! Tell me more.''"

definition ex_db :: database where
  "ex_db =
     \<lparr>users = [''alice'' \<mapsto>
                 \<lparr>r_id = ''alice'', r_username = ''alice'', r_name = ''Alice'',
                  r_bio = ''Hi! I am new here.'', r_phone = [],
                  r_avatarColor = ''bg-gradient-to-br from-red-500 to-orange-500'',
                  r_isPremium = 0, r_isAdmin = 0\<rparr>],
      promo_codes = [''welcome10'' \<mapsto> \<lparr>max_uses = 999999, current_uses = 0\<rparr>],
      user_promo_usage = {}\<rparr>"

text \<open>
  The render in which \<open>alice\<close>'s listener subscribed (no conversation open yet), and her
  session after she has renamed herself \<open>alice2\<close> in the settings: the profile keeps its
  id, so nothing subscribes anew.
\<close>

definition ex_cl :: render where
  "ex_cl = render_of (ex_state True)"

definition ex_renamed :: app_state where
  "ex_renamed = (ex_state True)\<lparr>userProfile := ex_alice\<lparr>u_username := ''alice2''\<rparr>\<rparr>"

text \<open>
  The state that a handler or an effect leaves: the one it returns, or the old one when it
  raises. With it, the spec's scenario: \<open>bob\<close>'s message \<open>m9\<close> has come in through the
  listener; then \<open>alice\<close> has opened the conversation and the read-receipts effect has run.
\<close>

definition committed :: "app_state \<Rightarrow> error + app_state \<Rightarrow> app_state" where
  "committed st r = (case r of Inl e \<Rightarrow> st | Inr st' \<Rightarrow> st')"

definition ex_received :: "bool \<Rightarrow> app_state" where
  "ex_received online =
     committed (ex_state online)
       (handleIncomingMessage ex_cl (ex_msg ''m9'' ''alice'' (Some ''bob'')) (ex_state online))"

definition ex_opened :: "bool \<Rightarrow> app_state" where
  "ex_opened online =
     committed (ex_received online)
       (read_receipts_effect (handleSelectChat ''bob'' (ex_received online)))"

subsection \<open>The order on message stores that the status invariant speaks of\<close>

text \<open>
  \<open>toward_read ms ms'\<close>: every conversation of \<open>ms\<close> is still there in \<open>ms'\<close>, no
  shorter, and each of its messages is in its old place, either as it was or with its
  status set to \<^verbatim>\<open>read\<close>.
\<close>

definition toward_read :: "(string \<rightharpoonup> Message list) \<Rightarrow> (string \<rightharpoonup> Message list) \<Rightarrow> bool" where
  "toward_read ms ms' \<longleftrightarrow>
     (\<forall>k l. ms k = Some l \<longrightarrow>
        (\<exists>l'. ms' k = Some l' \<and> length l \<le> length l'
           \<and> (\<forall>i<length l. l' ! i = l ! i \<or> l' ! i = (l ! i)\<lparr>m_status := Read\<rparr>)))"

section \<open>Properties\<close>

subsection \<open>Auxiliary facts\<close>

lemma findIndex_None: "findIndex P xs = None \<longleftrightarrow> (\<forall>x\<in>set xs. \<not> P x)"
  by (induction xs) auto

lemma findIndex_Some:
  "findIndex P xs = Some i \<Longrightarrow> i < length xs \<and> P (xs ! i) \<and> (\<forall>j<i. \<not> P (xs ! j))"
proof (induction xs arbitrary: i)
  case Nil
  then show ?case by simp
next
  case (Cons x xs)
  show ?case
  proof (cases "P x")
    case True
    with Cons.prems show ?thesis by simp
  next
    case False
    with Cons.prems obtain k where k: "findIndex P xs = Some k" "i = Suc k"
      by auto
    from Cons.IH [OF k(1)] False k(2) show ?thesis
      by (auto simp: nth_Cons less_Suc_eq_0_disj)
  qed
qed


lemma find_Some_findIndex:
  "find P xs = Some x \<Longrightarrow> \<exists>i. findIndex P xs = Some i \<and> xs ! i = x"
  by (induction xs) (auto split: if_splits)

lemma entry_or_empty_msgs_of:
  "k \<notin> set Object_prototype_keys \<or> ms k \<noteq> None \<Longrightarrow> entry_or_empty ms k = Inr (msgs_of ms k)"
  by (auto simp: entry_or_empty_def msgs_of_def split: option.splits)

lemmas ex_defs = ex_state_def ex_msg_def ex_alice_def ex_bob_def ex_profile_def ex_sock_def
  INITIAL_CHATS_def INITIAL_MESSAGES_def ex_cl_def ex_renamed_def render_of_def

lemmas incoming_defs = handleIncomingMessage_def targetChatId_def or_else_def msgs_of_def
  newChat_incoming_def updatedChat_incoming_def splice1_def entry_or_empty_def
  Object_prototype_keys_def Let_def

subsection \<open>Inbound message routing\<close>




subsection \<open>Unread counter\<close>

lemma ex_received_eq:
  "ex_received online = (ex_state online)
         \<lparr>messages := (messages (ex_state online))(''bob'' \<mapsto> [ex_msg ''m9'' ''alice'' (Some ''bob'')]),
          chats := newChat_incoming Map.empty ''bob'' (ex_msg ''m9'' ''alice'' (Some ''bob''))
                     # INITIAL_CHATS 0\<rparr>"
  by (simp add: ex_received_def committed_def ex_defs incoming_defs)

lemmas receipt_defs = read_receipts_effect_def handleSelectChat_def unreadMessages_def
  isMine_def markRead_def sendReadReceipt_def emit_def

lemma ex_opened_eq:
  "ex_opened online = (ex_received online)
         \<lparr>activeChatId := Some ''bob'',
          messages := (messages (ex_state online))
            (''bob'' \<mapsto> [(ex_msg ''m9'' ''alice'' (Some ''bob''))\<lparr>m_status := Read\<rparr>]),
          socketRef := Some (sendReadReceipt ''bob'' [''m9''] (ex_sock online)),
          chats := (newChat_incoming Map.empty ''bob'' (ex_msg ''m9'' ''alice'' (Some ''bob'')))
                      \<lparr>c_unreadCount := 0\<rparr> # INITIAL_CHATS 0\<rparr>"
  unfolding ex_opened_def ex_received_eq
  by (simp add: committed_def ex_defs incoming_defs read_receipts_effect_def handleSelectChat_def
      unreadMessages_def isMine_def markRead_def)

lemma incoming_unread_count_by_render:
  assumes "handleIncomingMessage cl msg st = Inr st'"
    and "target = targetChatId (cl_username cl) msg"
    and "find (\<lambda>c. c_id c = target) (chats st) = Some C"
  shows "\<exists>C'. find (\<lambda>c. c_id c = target) (chats st') = Some C'
       \<and> c_unreadCount C' =
           (if cl_activeChatId cl = Some target then c_unreadCount C else c_unreadCount C + 1)"
proof -
  from find_Some_findIndex [OF assms(3)]
  obtain i where i: "findIndex (\<lambda>c. c_id c = target) (chats st) = Some i" "chats st ! i = C"
    by blast
  from findIndex_Some [OF i(1)] i(2) have "c_id C = target" by simp
  then show ?thesis
    using assms(1,2) i
    by (auto simp: handleIncomingMessage_def Let_def updatedChat_incoming_def split: sum.splits)
qed

text \<open>
  Claim C2, on the code. The handler compares the routed id with the active conversation
  of its own render, not with the one that is active when the message arrives. Through
  the socket listener, whose render is the one that subscribed: \<open>bob\<close>'s first message
  creates his chat, \<open>alice\<close> opens it (count 0, conversation active), and \<open>bob\<close>'s second
  message raises the count of the open conversation to 1. Through the timer of a
  generated reply, whose render is the one of the send: \<open>alice\<close> writes to the Gemini bot,
  moves on to her Saved Messages, and the reply leaves the count of the Gemini chat, which
  is no longer active, at 0.
\<close>

theorem incoming_unread_stale_render:
  "activeChatId (ex_opened True) = Some ''bob''
   \<and> map_option c_unreadCount (find (\<lambda>c. c_id c = ''bob'') (chats (ex_opened True))) = Some 0
   \<and> map_sum id (\<lambda>st'. map_option c_unreadCount (find (\<lambda>c. c_id c = ''bob'') (chats st')))
        (handleIncomingMessage ex_cl (ex_msg ''m10'' ''alice'' (Some ''bob'')) (ex_opened True))
     = Inr (Some 1)
   \<and> activeChatId (handleSelectChat ''1''
        (fst (handleSendMessage ex_JSON ex_ai 0 9 ''hello'' None
           (handleSelectChat ''2'' (ex_state True)))))
     = Some ''1''
   \<and> map_option c_unreadCount (find (\<lambda>c. c_id c = ''2'')
        (chats (handleSelectChat ''1''
          (fst (handleSendMessage ex_JSON ex_ai 0 9 ''hello'' None
             (handleSelectChat ''2'' (ex_state True)))))))
     = Some 0
   \<and> map_option c_unreadCount (find (\<lambda>c. c_id c = ''2'')
        (chats (deliver_reply (render_of (handleSelectChat ''2'' (ex_state True))) 10
          (hd (snd (handleSendMessage ex_JSON ex_ai 0 9 ''hello'' None
             (handleSelectChat ''2'' (ex_state True)))))
          (handleSelectChat ''1''
            (fst (handleSendMessage ex_JSON ex_ai 0 9 ''hello'' None
               (handleSelectChat ''2'' (ex_state True))))))))
     = Some 0"
  unfolding ex_opened_eq ex_received_eq
  by (simp add: ex_defs incoming_defs handleSelectChat_def
      handleSendMessage_def deliver_reply_def botMsg_def truthy_def sendMessage_def
      userMsg_def apply_attachment_def ex_ai_def ex_JSON_def typing_delay_def)

subsection \<open>Read receipts on opening a conversation\<close>

lemma isMine_status [simp]: "isMine me (m\<lparr>m_status := s\<rparr>) = isMine me m"
  by (simp add: isMine_def)

lemma unread_markRead:
  "unreadMessages me (markRead (map m_id (unreadMessages me ms)) ms) = []"
  by (auto simp: unreadMessages_def filter_empty_conv markRead_def)

text \<open>
  Claim C3, as amended. Let conversation \<open>a\<close> have a non-empty id and hold at least one
  message that is neither the local user's nor read, and let the controller hold its
  channel adapter. Making \<open>a\<close> the active conversation and running the read-receipts
  effect emits, while the adapter is connected, exactly one read receipt, which lists the
  ids of all those messages; while it is disconnected nothing is emitted. In both cases
  the effect returns, the messages of \<open>a\<close> with those ids are marked read in the store
  and nothing else in the store changes, no unread message of a counterpart is left in
  \<open>a\<close>, the unread count of \<open>a\<close> is 0, and a further run of the effect changes nothing,
  so no receipt follows for those ids.
\<close>

theorem open_chat_read_receipt:
  assumes "a \<noteq> []"
    and "socketRef st = Some sock"
    and "unread = unreadMessages (userProfile st) (msgs_of (messages st) a)"
    and "unread \<noteq> []"
  shows "\<exists>st1 sock1. read_receipts_effect (handleSelectChat a st) = Inr st1
       \<and> socketRef st1 = Some sock1
       \<and> emitted sock1 = emitted sock @
            (if connected sock then [MESSAGE_READ a (map m_id unread) (myUserId sock)] else [])
       \<and> messages st1 = (messages st)(a \<mapsto> markRead (map m_id unread) (msgs_of (messages st) a))
       \<and> length (msgs_of (messages st1) a) = length (msgs_of (messages st) a)
       \<and> (\<forall>i<length (msgs_of (messages st) a).
             msgs_of (messages st1) a ! i =
               (if m_id (msgs_of (messages st) a ! i) \<in> set (map m_id unread)
                then (msgs_of (messages st) a ! i)\<lparr>m_status := Read\<rparr>
                else msgs_of (messages st) a ! i))
       \<and> unreadMessages (userProfile st1) (msgs_of (messages st1) a) = []
       \<and> activeChatId st1 = Some a
       \<and> chats st1 = map (\<lambda>c. if c_id c = a then c\<lparr>c_unreadCount := 0\<rparr> else c) (chats st)
       \<and> read_receipts_effect st1 = Inr st1"
proof -
  let ?sel = "handleSelectChat a st"
  let ?old = "msgs_of (messages st) a"
  define st1 where "st1 = ?sel\<lparr>messages := (messages st)(a \<mapsto> markRead (map m_id unread) ?old),
                         socketRef := Some (sendReadReceipt a (map m_id unread) sock),
                         chats := map (\<lambda>c. if c_id c = a then c\<lparr>c_unreadCount := 0\<rparr> else c)
                                    (chats ?sel)\<rparr>"
  have sel: "activeChatId ?sel = Some a" "socketRef ?sel = Some sock"
    "messages ?sel = messages st" "userProfile ?sel = userProfile st"
    by (simp_all add: handleSelectChat_def assms(2))
  have own: "messages st a \<noteq> None"
  proof
    assume "messages st a = None"
    then have "unread = []"
      unfolding assms(3) by (simp add: msgs_of_def unreadMessages_def)
    with assms(4) show False by simp
  qed
  then have en: "entry_or_empty (messages st) a = Inr ?old"
    by (simp add: entry_or_empty_msgs_of)
  have run: "read_receipts_effect ?sel = Inr st1"
    using assms(1,3,4) sel en unfolding read_receipts_effect_def st1_def
    by (simp add: Let_def)
  have em: "emitted (sendReadReceipt a (map m_id unread) sock) = emitted sock @
            (if connected sock then [MESSAGE_READ a (map m_id unread) (myUserId sock)] else [])"
    by (simp add: sendReadReceipt_def emit_def)
  have new: "msgs_of (messages st1) a = markRead (map m_id unread) ?old"
    by (simp add: st1_def msgs_of_def)
  have en1: "entry_or_empty (messages st1) a = Inr (markRead (map m_id unread) ?old)"
    by (simp add: st1_def entry_or_empty_def)
  have none: "unreadMessages (userProfile st1) (msgs_of (messages st1) a) = []"
    unfolding new using unread_markRead [of "userProfile st" ?old] assms(3)
    by (simp add: st1_def handleSelectChat_def)
  have again: "read_receipts_effect st1 = Inr st1"
    unfolding read_receipts_effect_def
    using assms(1) none en1 new
    by (simp add: st1_def sel Let_def)
  have len: "length (msgs_of (messages st1) a) = length ?old"
    unfolding new by (simp add: markRead_def)
  have nth: "\<forall>i<length ?old. msgs_of (messages st1) a ! i =
               (if m_id (?old ! i) \<in> set (map m_id unread)
                then (?old ! i)\<lparr>m_status := Read\<rparr> else ?old ! i)"
    unfolding new by (simp add: markRead_def)
  have ch: "chats st1 = map (\<lambda>c. if c_id c = a then c\<lparr>c_unreadCount := 0\<rparr> else c) (chats st)"
    by (simp add: st1_def handleSelectChat_def comp_def)
  have ms: "messages st1 = (messages st)(a \<mapsto> markRead (map m_id unread) ?old)"
    by (simp add: st1_def)
  have ac: "activeChatId st1 = Some a" "socketRef st1 = Some (sendReadReceipt a (map m_id unread) sock)"
    by (simp_all add: st1_def sel)
  from run em ms len nth none ac ch again show ?thesis
    by blast
qed

text \<open>
  The spec's scenario: \<open>bob\<close>'s message \<open>m9\<close> is unread and \<open>alice\<close> opens the
  conversation. Connected, one receipt for \<open>m9\<close> is emitted; disconnected, none. In both
  cases \<open>m9\<close> is read afterwards and the unread counts of the chat list are 0, 0 and 1.
\<close>

theorem open_chat_read_receipt_witness:
  "unreadMessages (userProfile (ex_received True)) (msgs_of (messages (ex_received True)) ''bob'')
     = [ex_msg ''m9'' ''alice'' (Some ''bob'')]
   \<and> map_sum id (\<lambda>st1. (map_option emitted (socketRef st1),
                        map (\<lambda>m. (m_id m, m_status m)) (msgs_of (messages st1) ''bob''),
                        map c_unreadCount (chats st1)))
        (read_receipts_effect (handleSelectChat ''bob'' (ex_received True)))
     = Inr (Some [MESSAGE_READ ''bob'' [''m9''] (Some ''alice'')], [(''m9'', Read)], [0, 0, 1])
   \<and> unreadMessages (userProfile (ex_received False)) (msgs_of (messages (ex_received False)) ''bob'')
     = [ex_msg ''m9'' ''alice'' (Some ''bob'')]
   \<and> map_sum id (\<lambda>st1. (map_option emitted (socketRef st1),
                        map (\<lambda>m. (m_id m, m_status m)) (msgs_of (messages st1) ''bob''),
                        map c_unreadCount (chats st1)))
        (read_receipts_effect (handleSelectChat ''bob'' (ex_received False)))
     = Inr (Some [], [(''m9'', Read)], [0, 0, 1])"
proof -
  let ?m = "ex_msg ''m9'' ''alice'' (Some ''bob'')"
  have main: "unreadMessages (userProfile (ex_received online))
        (msgs_of (messages (ex_received online)) ''bob'') = [?m]
      \<and> map_sum id (\<lambda>st1. (map_option emitted (socketRef st1),
                        map (\<lambda>m. (m_id m, m_status m)) (msgs_of (messages st1) ''bob''),
                        map c_unreadCount (chats st1)))
          (read_receipts_effect (handleSelectChat ''bob'' (ex_received online)))
        = Inr (Some (if online then [MESSAGE_READ ''bob'' [''m9''] (Some ''alice'')] else []),
               [(''m9'', Read)], [0, 0, 1])" for online
  proof -
    let ?st = "ex_received online"
    have old: "msgs_of (messages ?st) ''bob'' = [?m]"
      by (simp add: ex_received_eq msgs_of_def)
    have u: "[?m] = unreadMessages (userProfile ?st) (msgs_of (messages ?st) ''bob'')"
      unfolding old by (simp add: ex_received_eq) (simp add: ex_defs unreadMessages_def isMine_def)
    have s: "socketRef ?st = Some (ex_sock online)"
      by (simp add: ex_received_eq) (simp add: ex_state_def)
    have cs: "map c_unreadCount (chats ?st) = [1, 0, 1]" "map c_id (chats ?st) = [''bob'', ''1'', ''2'']"
      by (simp_all add: ex_received_eq newChat_incoming_def INITIAL_CHATS_def)
    have ne: "[?m] \<noteq> []"
      by simp
    from open_chat_read_receipt [of "''bob''" ?st "ex_sock online" "[?m]", OF _ s u ne]
    obtain st1 sock1 where run: "read_receipts_effect (handleSelectChat ''bob'' ?st) = Inr st1"
      and k: "socketRef st1 = Some sock1"
      and e: "emitted sock1 = emitted (ex_sock online) @
            (if connected (ex_sock online)
             then [MESSAGE_READ ''bob'' (map m_id [?m]) (myUserId (ex_sock online))] else [])"
      and ms: "messages st1 = (messages ?st)(''bob'' \<mapsto>
                 markRead (map m_id [?m]) (msgs_of (messages ?st) ''bob''))"
      and ch: "chats st1 = map (\<lambda>c. if c_id c = ''bob'' then c\<lparr>c_unreadCount := 0\<rparr> else c)
                 (chats ?st)"
      by auto
    from e have e': "emitted sock1 =
        (if online then [MESSAGE_READ ''bob'' [''m9''] (Some ''alice'')] else [])"
      by (simp add: ex_sock_def ex_msg_def)
    have rd: "map (\<lambda>m. (m_id m, m_status m)) (msgs_of (messages st1) ''bob'') = [(''m9'', Read)]"
      unfolding ms old by (simp add: msgs_of_def markRead_def ex_msg_def)
    have cn: "map c_unreadCount (chats st1) = [0, 0, 1]"
      unfolding ch by (simp add: ex_received_eq newChat_incoming_def INITIAL_CHATS_def)
    from run k e' rd cn u show ?thesis
      by simp
  qed
  from main [of True] main [of False] show ?thesis
    by simp
qed

text \<open>
  Claim C3 as stated does not hold. With the adapter disconnected, opening the
  conversation that holds the unread message \<open>m9\<close> emits nothing; and a conversation
  whose id is the empty string is never served by the effect, connected or not.
\<close>

theorem read_receipt_offline_counterexample:
  "unreadMessages (userProfile (ex_received False)) (msgs_of (messages (ex_received False)) ''bob'')
     = [ex_msg ''m9'' ''alice'' (Some ''bob'')]
   \<and> map_sum id (\<lambda>st1. map_option emitted (socketRef st1))
        (read_receipts_effect (handleSelectChat ''bob'' (ex_received False)))
     = Inr (Some [])
   \<and> unreadMessages (userProfile (ex_state True))
      (msgs_of (messages (committed (ex_state True)
         (handleIncomingMessage ex_cl (ex_msg ''m9'' [] (Some ''bob'')) (ex_state True)))) [])
     = [ex_msg ''m9'' [] (Some ''bob'')]
   \<and> map_sum id (\<lambda>st1. map_option emitted (socketRef st1))
        (read_receipts_effect (handleSelectChat []
          (committed (ex_state True)
             (handleIncomingMessage ex_cl (ex_msg ''m9'' [] (Some ''bob'')) (ex_state True)))))
     = Inr (Some [])"
  unfolding ex_received_eq
  by (simp add: ex_defs incoming_defs receipt_defs committed_def)

subsection \<open>The echo of an own message\<close>

lemma sendMessage_emitted:
  "connected sock \<Longrightarrow>
   \<exists>m. emitted (sendMessage now chatId body toUserId isGroup att sock)
          = emitted sock @ [SEND_MESSAGE m isGroup]
      \<and> m_senderId m = myUserId sock"
  by (simp add: sendMessage_def emit_def Let_def)

lemma handleSendMessage_socket:
  assumes "activeChatId st = Some a" and "a \<noteq> []" and "socketRef st = Some sock"
    and "find (\<lambda>c. c_id c = a) (chats st) = Some chat"
  shows "socketRef (fst (handleSendMessage J ai boot now body att st))
       = Some (sendMessage now a body (c_id chat) (c_isGroup chat) att sock)"
  using assms by (simp add: handleSendMessage_def Let_def)

text \<open>
  Claim C10, as amended. Let the subscription effect run in a session that is past
  registration and has a username. The listener keeps the username of that render, and
  the adapter is registered under the same name. A \<^verbatim>\<open>NEW_MESSAGE\<close> notification whose
  message carries that username as its sender id is dropped: the whole state, and with it
  the chat list and the message store, is as before. So whatever the session sends
  through its connected adapter carries that sender id, and its broadcast by the relay,
  handed back to the listener, leaves the state as the send left it: the optimistic copy
  is not doubled.
\<close>

theorem own_message_dropped:
  assumes "(st1, cl) = subscription_effect st0"
    and "\<not> showRegistration st0"
    and "u_username (userProfile st0) \<noteq> []"
  shows "cl_username cl = u_username (userProfile st0)
       \<and> (\<exists>sock. socketRef st1 = Some sock \<and> myUserId sock = Some (cl_username cl))
       \<and> (\<forall>msg st. m_senderId msg = Some (cl_username cl) \<longrightarrow>
             subscribe_handler cl now t (N_NEW_MESSAGE msg) st = Inr st)
       \<and> (\<forall>st sock a chat now' body att.
             socketRef st = Some sock \<and> myUserId sock = Some (cl_username cl) \<and> connected sock
             \<and> activeChatId st = Some a \<and> a \<noteq> [] \<and> find (\<lambda>c. c_id c = a) (chats st) = Some chat
             \<longrightarrow> (\<exists>m sock2.
                   socketRef (fst (handleSendMessage J ai boot now' body att st)) = Some sock2
                   \<and> emitted sock2 = emitted sock @ [SEND_MESSAGE m (c_isGroup chat)]
                   \<and> m_senderId m = Some (cl_username cl)
                   \<and> subscribe_handler cl now t (N_NEW_MESSAGE (relay_broadcast m))
                       (fst (handleSendMessage J ai boot now' body att st))
                     = Inr (fst (handleSendMessage J ai boot now' body att st))))"
proof -
  have cl: "cl = render_of st0" and st1: "st1 = fst (subscription_effect st0)"
    using assms(1) by (simp_all add: subscription_effect_def Let_def)
  have u: "cl_username cl = u_username (userProfile st0)"
    by (simp add: cl render_of_def)
  have s: "\<exists>sock. socketRef st1 = Some sock \<and> myUserId sock = Some (cl_username cl)"
    using assms(2,3) unfolding st1 u
    by (simp add: subscription_effect_def Let_def registerUser_def emit_def)
  have d: "subscribe_handler cl now t (N_NEW_MESSAGE msg) st = Inr st"
    if "m_senderId msg = Some (cl_username cl)" for msg st
    using that by (simp add: subscribe_handler_def)
  have e: "\<exists>m sock2.
       socketRef (fst (handleSendMessage J ai boot now' body att st)) = Some sock2
       \<and> emitted sock2 = emitted sock @ [SEND_MESSAGE m (c_isGroup chat)]
       \<and> m_senderId m = Some (cl_username cl)
       \<and> subscribe_handler cl now t (N_NEW_MESSAGE (relay_broadcast m))
           (fst (handleSendMessage J ai boot now' body att st))
         = Inr (fst (handleSendMessage J ai boot now' body att st))"
    if h: "socketRef st = Some sock" "myUserId sock = Some (cl_username cl)" "connected sock"
      "activeChatId st = Some a" "a \<noteq> []" "find (\<lambda>c. c_id c = a) (chats st) = Some chat"
    for st sock a chat now' body att
  proof -
    from sendMessage_emitted [OF h(3), of now' a body "c_id chat" "c_isGroup chat" att]
    obtain m where m: "emitted (sendMessage now' a body (c_id chat) (c_isGroup chat) att sock)
          = emitted sock @ [SEND_MESSAGE m (c_isGroup chat)]" "m_senderId m = myUserId sock"
      by blast
    have r: "m_senderId (relay_broadcast m) = Some (cl_username cl)"
      using m(2) h(2) by (simp add: relay_broadcast_def)
    from handleSendMessage_socket [OF h(4,5,1,6)] m h(2) d [OF r] show ?thesis
      by auto
  qed
  from u s d e show ?thesis
    by blast
qed

text \<open>
  \<open>alice\<close>'s session subscribes. A message that carries her username as sender id is
  dropped, and so is the relay's broadcast of what she sends to the Gemini bot.
\<close>

theorem own_message_dropped_witness:
  "\<not> showRegistration (ex_state True)
   \<and> u_username (userProfile (ex_state True)) \<noteq> []
   \<and> cl_username (snd (subscription_effect (ex_state True))) = ''alice''
   \<and> subscribe_handler (snd (subscription_effect (ex_state True))) 8
        \<lparr>contactJoined = ''joined RedGram''\<rparr>
        (N_NEW_MESSAGE (ex_msg ''m9'' ''bob'' (Some ''alice''))) (ex_state True)
      = Inr (ex_state True)
   \<and> (\<exists>m sock2.
        socketRef (fst (handleSendMessage ex_JSON ex_ai 0 9 ''hello'' None
                     (handleSelectChat ''2'' (ex_state True)))) = Some sock2
        \<and> emitted sock2 = [SEND_MESSAGE m None]
        \<and> m_senderId m = Some ''alice''
        \<and> subscribe_handler (snd (subscription_effect (ex_state True))) 8
             \<lparr>contactJoined = ''joined RedGram''\<rparr> (N_NEW_MESSAGE (relay_broadcast m))
             (fst (handleSendMessage ex_JSON ex_ai 0 9 ''hello'' None
                (handleSelectChat ''2'' (ex_state True))))
          = Inr (fst (handleSendMessage ex_JSON ex_ai 0 9 ''hello'' None
                (handleSelectChat ''2'' (ex_state True)))))"
proof -
  let ?cl = "snd (subscription_effect (ex_state True))"
  let ?t = "\<lparr>contactJoined = ''joined RedGram''\<rparr>"
  let ?s2 = "handleSelectChat ''2'' (ex_state True)"
  let ?c2 = "(INITIAL_CHATS 0 ! 1)\<lparr>c_unreadCount := 0\<rparr>"
  have r: "\<not> showRegistration (ex_state True)" and n: "u_username (userProfile (ex_state True)) \<noteq> []"
    by (simp_all add: ex_defs)
  have c: "(fst (subscription_effect (ex_state True)), ?cl) = subscription_effect (ex_state True)"
    by simp
  note T = own_message_dropped [where now = 8 and t = ?t and J = ex_JSON and ai = ex_ai
      and boot = 0, OF c r n]
  have u: "cl_username ?cl = ''alice''"
    using T [THEN conjunct1] by (simp add: ex_defs)
  have sid: "m_senderId (ex_msg ''m9'' ''bob'' (Some ''alice'')) = Some (cl_username ?cl)"
    unfolding u by (simp add: ex_msg_def)
  have d: "subscribe_handler ?cl 8 ?t (N_NEW_MESSAGE (ex_msg ''m9'' ''bob'' (Some ''alice'')))
             (ex_state True) = Inr (ex_state True)"
    using T [THEN conjunct2, THEN conjunct2, THEN conjunct1] sid by blast
  have pre: "socketRef ?s2 = Some (ex_sock True) \<and> myUserId (ex_sock True) = Some (cl_username ?cl)
      \<and> connected (ex_sock True) \<and> activeChatId ?s2 = Some ''2'' \<and> ''2'' \<noteq> []
      \<and> find (\<lambda>c. c_id c = ''2'') (chats ?s2) = Some ?c2"
    unfolding u by (simp add: handleSelectChat_def ex_state_def ex_sock_def INITIAL_CHATS_def)
  from T [THEN conjunct2, THEN conjunct2, THEN conjunct2] pre have "\<exists>m sock2.
        socketRef (fst (handleSendMessage ex_JSON ex_ai 0 9 ''hello'' None ?s2)) = Some sock2
        \<and> emitted sock2 = emitted (ex_sock True) @ [SEND_MESSAGE m (c_isGroup ?c2)]
        \<and> m_senderId m = Some (cl_username ?cl)
        \<and> subscribe_handler ?cl 8 ?t (N_NEW_MESSAGE (relay_broadcast m))
             (fst (handleSendMessage ex_JSON ex_ai 0 9 ''hello'' None ?s2))
          = Inr (fst (handleSendMessage ex_JSON ex_ai 0 9 ''hello'' None ?s2))"
    by blast
  then have e: "\<exists>m sock2.
        socketRef (fst (handleSendMessage ex_JSON ex_ai 0 9 ''hello'' None ?s2)) = Some sock2
        \<and> emitted sock2 = [SEND_MESSAGE m None]
        \<and> m_senderId m = Some ''alice''
        \<and> subscribe_handler ?cl 8 ?t (N_NEW_MESSAGE (relay_broadcast m))
             (fst (handleSendMessage ex_JSON ex_ai 0 9 ''hello'' None ?s2))
          = Inr (fst (handleSendMessage ex_JSON ex_ai 0 9 ''hello'' None ?s2))"
    unfolding u by (simp add: ex_sock_def INITIAL_CHATS_def)
  from r n u d e show ?thesis
    by blast
qed

text \<open>
  Claim C10 as stated does not hold. After \<open>alice\<close> has renamed herself \<open>alice2\<close>, which
  keeps the profile id and so the subscription, a \<^verbatim>\<open>NEW_MESSAGE\<close> whose sender id is her
  username \<open>alice2\<close> is not dropped: it is filed under its conversation \<open>bob\<close>.
\<close>

theorem own_message_renamed_counterexample:
  "m_senderId (ex_msg ''m10'' ''bob'' (Some ''alice2'')) = Some (u_username (userProfile ex_renamed))
   \<and> messages ex_renamed ''bob'' = None
   \<and> map_sum id (\<lambda>st'. messages st' ''bob'')
        (subscribe_handler ex_cl 8 \<lparr>contactJoined = ''joined RedGram''\<rparr>
           (N_NEW_MESSAGE (ex_msg ''m10'' ''bob'' (Some ''alice2''))) ex_renamed)
      = Inr (Some [ex_msg ''m10'' ''bob'' (Some ''alice2'')])"
  by (simp add: ex_defs incoming_defs subscribe_handler_def)

subsection \<open>A peer joins\<close>



subsection \<open>Directory sync\<close>

lemma find_append_None:
  "find P (xs @ ys) = None \<longleftrightarrow> find P xs = None \<and> find P ys = None"
  by (induction xs) auto

lemma find_after_newContact:
  "find (\<lambda>c. c_username c = Some n) (cs @ [newContact now u]) = None \<longleftrightarrow>
     find (\<lambda>c. c_username c = Some n) cs = None \<and> n \<noteq> u_username u"
  by (auto simp: find_append_None newContact_def)

lemma sync_chats_shape:
  "\<exists>fresh. sync_chats now self us cs = cs @ map (newContact now) fresh
     \<and> subseq fresh us
     \<and> distinct (map u_username fresh)
     \<and> set (map u_username fresh) =
         {n \<in> set (map u_username us). n \<noteq> self \<and> find (\<lambda>c. c_username c = Some n) cs = None}
     \<and> (distinct (map u_username us) \<longrightarrow>
          fresh = filter (\<lambda>v. u_username v \<noteq> self
                    \<and> find (\<lambda>c. c_username c = Some (u_username v)) cs = None) us)"
proof (induction us arbitrary: cs)
  case Nil
  show ?case by simp
next
  case (Cons u us)
  show ?case
  proof (cases "u_username u \<noteq> self \<and> find (\<lambda>c. c_username c = Some (u_username u)) cs = None")
    case False
    from Cons.IH [of cs] obtain fresh where
      f: "sync_chats now self us cs = cs @ map (newContact now) fresh" "subseq fresh us"
         "distinct (map u_username fresh)"
         "set (map u_username fresh) =
           {n \<in> set (map u_username us). n \<noteq> self \<and> find (\<lambda>c. c_username c = Some n) cs = None}"
         "distinct (map u_username us) \<longrightarrow>
            fresh = filter (\<lambda>v. u_username v \<noteq> self
                    \<and> find (\<lambda>c. c_username c = Some (u_username v)) cs = None) us"
      by blast
    have "sync_chats now self (u # us) cs = cs @ map (newContact now) fresh"
      using False f(1) by auto
    moreover have "subseq fresh (u # us)"
      using f(2) by (rule list_emb_Cons)
    moreover have "set (map u_username fresh) =
         {n \<in> set (map u_username (u # us)). n \<noteq> self \<and> find (\<lambda>c. c_username c = Some n) cs = None}"
      using False f(4) by auto
    moreover have "distinct (map u_username (u # us)) \<longrightarrow>
            fresh = filter (\<lambda>v. u_username v \<noteq> self
                    \<and> find (\<lambda>c. c_username c = Some (u_username v)) cs = None) (u # us)"
      using False f(5) by auto
    ultimately show ?thesis using f(3) by blast
  next
    case True
    let ?cs = "cs @ [newContact now u]"
    from Cons.IH [of ?cs] obtain fresh where
      f: "sync_chats now self us ?cs = ?cs @ map (newContact now) fresh" "subseq fresh us"
         "distinct (map u_username fresh)"
         "set (map u_username fresh) =
           {n \<in> set (map u_username us). n \<noteq> self \<and> find (\<lambda>c. c_username c = Some n) ?cs = None}"
         "distinct (map u_username us) \<longrightarrow>
            fresh = filter (\<lambda>v. u_username v \<noteq> self
                    \<and> find (\<lambda>c. c_username c = Some (u_username v)) ?cs = None) us"
      by blast
    have "sync_chats now self (u # us) cs = cs @ map (newContact now) (u # fresh)"
      using True f(1) by simp
    moreover have "subseq (u # fresh) (u # us)"
      using f(2) by simp
    moreover have "distinct (map u_username (u # fresh))"
      using f(3,4) by (auto simp: find_after_newContact)
    moreover have "set (map u_username (u # fresh)) =
         {n \<in> set (map u_username (u # us)). n \<noteq> self \<and> find (\<lambda>c. c_username c = Some n) cs = None}"
      using True f(4) by (auto simp: find_after_newContact)
    moreover have "distinct (map u_username (u # us)) \<longrightarrow>
            u # fresh = filter (\<lambda>v. u_username v \<noteq> self
                    \<and> find (\<lambda>c. c_username c = Some (u_username v)) cs = None) (u # us)"
    proof
      assume d: "distinct (map u_username (u # us))"
      have n: "u_username v \<noteq> u_username u" if "v \<in> set us" for v
      proof
        assume "u_username v = u_username u"
        with that have "u_username u \<in> set (map u_username us)"
          by (metis image_eqI set_map)
        with d show False by simp
      qed
      have eq: "(u_username v \<noteq> self \<and> find (\<lambda>c. c_username c = Some (u_username v)) ?cs = None)
          = (u_username v \<noteq> self \<and> find (\<lambda>c. c_username c = Some (u_username v)) cs = None)"
        if "v \<in> set us" for v
        using n [OF that] by (simp add: find_after_newContact)
      have "filter (\<lambda>v. u_username v \<noteq> self \<and> find (\<lambda>c. c_username c = Some (u_username v)) ?cs = None) us
          = filter (\<lambda>v. u_username v \<noteq> self \<and> find (\<lambda>c. c_username c = Some (u_username v)) cs = None) us"
        by (rule filter_cong [OF refl eq])
      with d f(5) True show "u # fresh = filter (\<lambda>v. u_username v \<noteq> self
                    \<and> find (\<lambda>c. c_username c = Some (u_username v)) cs = None) (u # us)"
        by simp
    qed
    ultimately show ?thesis by blast
  qed
qed

text \<open>
  Claim C7, as amended. On a directory snapshot \<open>us\<close> the chat list becomes the old chat
  list, in its old order, followed by new previews built from a sub-sequence \<open>fresh\<close> of
  the snapshot, in snapshot order. Every new preview has unread count 0, no last message,
  and the peer's username as its id and username. The usernames of \<open>fresh\<close> are exactly
  those of the listed peers that are not the username the listener holds for the local
  account (the local username of the render that subscribed) and that no existing chat
  carries, each once; when the snapshot lists no username twice, \<open>fresh\<close> is the list of
  all such peers.
\<close>

theorem directory_sync:
  assumes "st' = handleUserSync cl now us st"
    and "self = cl_username cl"
  shows "\<exists>fresh. chats st' = chats st @ map (newContact now) fresh
       \<and> subseq fresh us
       \<and> (\<forall>u\<in>set fresh. newContact now u =
             \<lparr>c_id = u_username u, c_name = u_name u, c_avatar = None,
              c_color = u_avatarColor u, c_lastMessage = [], c_timestamp = now,
              c_unreadCount = 0, c_isOnline = True, c_isBot = Some False, c_isGroup = None,
              c_username = Some (u_username u), c_bio = Some (u_bio u),
              c_phone = Some (u_phone u), c_muted = None, c_isAdmin = None,
              c_membersCount = None, c_sender = None, c_memberIds = None\<rparr>)
       \<and> distinct (map u_username fresh)
       \<and> set (map u_username fresh) =
           {n \<in> set (map u_username us).
              n \<noteq> self \<and> find (\<lambda>c. c_username c = Some n) (chats st) = None}
       \<and> (distinct (map u_username us) \<longrightarrow>
            fresh = filter (\<lambda>v. u_username v \<noteq> self
                      \<and> find (\<lambda>c. c_username c = Some (u_username v)) (chats st) = None) us)"
proof -
  from sync_chats_shape [of now self us "chats st"] obtain fresh where
    f: "sync_chats now self us (chats st) = chats st @ map (newContact now) fresh"
       "subseq fresh us" "distinct (map u_username fresh)"
       "set (map u_username fresh) =
           {n \<in> set (map u_username us).
              n \<noteq> self \<and> find (\<lambda>c. c_username c = Some n) (chats st) = None}"
       "distinct (map u_username us) \<longrightarrow>
            fresh = filter (\<lambda>v. u_username v \<noteq> self
                      \<and> find (\<lambda>c. c_username c = Some (u_username v)) (chats st) = None) us"
    by blast
  have c: "chats st' = chats st @ map (newContact now) fresh"
    using f(1) assms by (simp add: handleUserSync_def)
  have z: "\<forall>u\<in>set fresh. newContact now u =
             \<lparr>c_id = u_username u, c_name = u_name u, c_avatar = None,
              c_color = u_avatarColor u, c_lastMessage = [], c_timestamp = now,
              c_unreadCount = 0, c_isOnline = True, c_isBot = Some False, c_isGroup = None,
              c_username = Some (u_username u), c_bio = Some (u_bio u),
              c_phone = Some (u_phone u), c_muted = None, c_isAdmin = None,
              c_membersCount = None, c_sender = None, c_memberIds = None\<rparr>"
    by (simp add: newContact_def)
  from c f(2) z f(3) f(4) f(5) show ?thesis by blast
qed

text \<open>
  The spec's scenario: \<open>alice\<close> receives the directory \<open>[alice, bob]\<close>; a preview for
  \<open>bob\<close> with unread count 0 follows the two initial chats.
\<close>

theorem directory_sync_witness:
  "distinct (map u_username [ex_alice, ex_bob])
   \<and> chats (handleUserSync ex_cl 8 [ex_alice, ex_bob] (ex_state True))
       = chats (ex_state True) @ [newContact 8 ex_bob]
   \<and> c_unreadCount (newContact 8 ex_bob) = 0
   \<and> c_id (newContact 8 ex_bob) = ''bob''
   \<and> map c_id (chats (handleUserSync ex_cl 8 [ex_alice, ex_bob] (ex_state True)))
       = [''1'', ''2'', ''bob'']"
proof -
  have d: "distinct (map u_username [ex_alice, ex_bob])"
    by (simp add: ex_defs)
  have fl: "filter (\<lambda>v. u_username v \<noteq> ''alice''
              \<and> find (\<lambda>c. c_username c = Some (u_username v)) (chats (ex_state True)) = None)
             [ex_alice, ex_bob] = [ex_bob]"
    by (simp add: ex_defs)
  have s: "''alice'' = cl_username ex_cl"
    by (simp add: ex_defs)
  from directory_sync [OF refl s, of 8 "[ex_alice, ex_bob]" "ex_state True"] d fl
  have c: "chats (handleUserSync ex_cl 8 [ex_alice, ex_bob] (ex_state True))
       = chats (ex_state True) @ [newContact 8 ex_bob]"
    by auto
  have n: "c_unreadCount (newContact 8 ex_bob) = 0 \<and> c_id (newContact 8 ex_bob) = ''bob''"
    by (simp add: newContact_def ex_defs)
  have i: "map c_id (chats (handleUserSync ex_cl 8 [ex_alice, ex_bob] (ex_state True)))
       = [''1'', ''2'', ''bob'']"
    unfolding c using n by (simp add: ex_state_def INITIAL_CHATS_def)
  from d c n i show ?thesis by blast
qed

text \<open>
  Claim C7 as stated does not hold. After \<open>alice\<close> has renamed herself \<open>alice2\<close>, the
  listener still excludes the username \<open>alice\<close>: of the directory \<open>[alice, alice2, bob]\<close>,
  the peer \<open>alice\<close>, whose username is not the local username and whom no chat carries,
  gets no preview, and \<open>alice2\<close>, the local username, gets one.
\<close>

theorem directory_sync_renamed_counterexample:
  "u_username (userProfile ex_renamed) = ''alice2''
   \<and> find (\<lambda>c. c_username c = Some ''alice'') (chats ex_renamed) = None
   \<and> map c_id (chats (handleUserSync ex_cl 8
        [ex_alice, ex_profile ''Alice Two'' ''alice2'', ex_bob] ex_renamed))
       = [''1'', ''2'', ''alice2'', ''bob'']"
  by (simp add: ex_defs handleUserSync_def newContact_def)

subsection \<open>Account switching\<close>

lemma load_after_persist:
  assumes "stringify J cs \<noteq> []" and "parse J (stringify J cs) = Some cs"
    and "storage (CHATS_PREFIX @ uid) = Some (stringify J cs)"
  shows "loadChatsForUser J t0 storage uid = cs"
  using assms by (simp add: loadChatsForUser_def)

text \<open>
  Claim C4. Let \<open>A\<close> be the active account (a profile with the active id) with chat
  list \<open>chats st\<close>, and let the runtime's
  JSON codec write this list as a non-empty text that it parses back to the same list.
  Switching to any account \<open>B\<close> stores exactly that text under \<open>A\<close>'s key, switching back to
  \<open>A\<close> leaves the stored text as it is and loads a chat list equal to the one \<open>A\<close> had;
  the same holds when the persistence effect runs after each switch.
\<close>

theorem switch_away_and_back:
  assumes "u_id A = u_id (userProfile st)"
    and "stringify J (chats st) \<noteq> []"
    and "parse J (stringify J (chats st)) = Some (chats st)"
    and "away = handleSwitchAccount J t0 B st"
    and "back = handleSwitchAccount J t0 A away"
    and "back' = persist_chats_effect J
                   (handleSwitchAccount J t0 A (persist_chats_effect J away))"
  shows "localStorage away (CHATS_PREFIX @ u_id A) = Some (stringify J (chats st))
       \<and> localStorage back (CHATS_PREFIX @ u_id A) = Some (stringify J (chats st))
       \<and> chats back = chats st \<and> userProfile back = A
       \<and> localStorage back' (CHATS_PREFIX @ u_id A) = Some (stringify J (chats st))
       \<and> chats back' = chats st \<and> userProfile back' = A"
proof (cases "u_id B = u_id A")
  case True
  have l: "loadChatsForUser J t0
             ((localStorage st)(CHATS_PREFIX @ u_id A \<mapsto> stringify J (chats st))) (u_id A)
           = chats st"
    using assms(2,3) by (rule load_after_persist [where cs = "chats st"]) simp
  have a: "chats away = chats st" "userProfile away = B"
    "localStorage away = (localStorage st)(CHATS_PREFIX @ u_id A \<mapsto> stringify J (chats st))"
    using True l assms(1) unfolding assms(4) by (simp_all add: handleSwitchAccount_def Let_def)
  have p: "persist_chats_effect J away = away"
    using a True by (simp add: persist_chats_effect_def fun_upd_idem_iff)
  have b: "chats back = chats st" "userProfile back = A"
    "localStorage back = (localStorage st)(CHATS_PREFIX @ u_id A \<mapsto> stringify J (chats st))"
    using True l a unfolding assms(5) by (simp_all add: handleSwitchAccount_def Let_def)
  have b': "back' = persist_chats_effect J back"
    using p assms(5,6) by simp
  show ?thesis
    using a b unfolding b' by (simp add: persist_chats_effect_def)
next
  case False
  have l: "loadChatsForUser J t0 storage (u_id A) = chats st"
    if "storage (CHATS_PREFIX @ u_id A) = Some (stringify J (chats st))" for storage
    using assms(2,3) that by (rule load_after_persist [where cs = "chats st"])
  have a: "userProfile away = B"
    "localStorage away = (localStorage st)(CHATS_PREFIX @ u_id A \<mapsto> stringify J (chats st))"
    using assms(1) unfolding assms(4) by (simp_all add: handleSwitchAccount_def Let_def)
  have pa: "userProfile (persist_chats_effect J away) = B"
    "localStorage (persist_chats_effect J away) (CHATS_PREFIX @ u_id A)
       = Some (stringify J (chats st))"
    using a False by (simp_all add: persist_chats_effect_def)
  have b: "chats back = chats st" "userProfile back = A"
    "localStorage back (CHATS_PREFIX @ u_id A) = Some (stringify J (chats st))"
    using False a l unfolding assms(5) by (simp_all add: handleSwitchAccount_def Let_def)
  let ?mid = "handleSwitchAccount J t0 A (persist_chats_effect J away)"
  have m: "chats ?mid = chats st" "userProfile ?mid = A"
    "localStorage ?mid (CHATS_PREFIX @ u_id A) = Some (stringify J (chats st))"
    using False pa l by (simp_all add: handleSwitchAccount_def Let_def)
  have b': "chats back' = chats st" "userProfile back' = A"
    "localStorage back' (CHATS_PREFIX @ u_id A) = Some (stringify J (chats st))"
    using m unfolding assms(6) by (simp_all add: persist_chats_effect_def)
  show ?thesis
    using a b b' by simp
qed

text \<open>
  \<open>alice\<close>, whose chat list holds \<open>bob\<close> after the initial chats, switches to \<open>bob\<close> and
  back.
\<close>

theorem switch_away_and_back_witness:
  "chats (ex_state True\<lparr>chats := ex_chats\<rparr>) = ex_chats
   \<and> stringify ex_JSON ex_chats = ''[1,2,bob]''
   \<and> parse ex_JSON ''[1,2,bob]'' = Some ex_chats
   \<and> localStorage (handleSwitchAccount ex_JSON 0 ex_bob (ex_state True\<lparr>chats := ex_chats\<rparr>))
        ''redgram_chats_alice'' = Some ''[1,2,bob]''
   \<and> chats (handleSwitchAccount ex_JSON 0 ex_bob (ex_state True\<lparr>chats := ex_chats\<rparr>))
        = INITIAL_CHATS 0
   \<and> chats (handleSwitchAccount ex_JSON 0 ex_alice
        (handleSwitchAccount ex_JSON 0 ex_bob (ex_state True\<lparr>chats := ex_chats\<rparr>)))
        = ex_chats"
proof -
  let ?st = "ex_state True\<lparr>chats := ex_chats\<rparr>"
  have c: "chats ?st = ex_chats"
    by simp
  have a: "u_id ex_alice = u_id (userProfile ?st)"
    by (simp add: ex_state_def)
  have s: "stringify ex_JSON ex_chats = ''[1,2,bob]''"
    by (simp add: ex_JSON_def)
  have p: "parse ex_JSON ''[1,2,bob]'' = Some ex_chats"
    by (simp add: ex_JSON_def)
  have k: "CHATS_PREFIX @ u_id ex_alice = ''redgram_chats_alice''"
    by (simp add: CHATS_PREFIX_def ex_defs)
  have b: "chats (handleSwitchAccount ex_JSON 0 ex_bob ?st) = INITIAL_CHATS 0"
    by (simp add: handleSwitchAccount_def loadChatsForUser_def CHATS_PREFIX_def ex_defs)
  from switch_away_and_back [of ex_alice ?st ex_JSON _ 0 ex_bob, OF a _ _ refl refl refl]
    c s p k b
  show ?thesis by simp
qed

subsection \<open>Delivery status\<close>

lemma toward_read_refl: "toward_read ms ms"
  by (simp add: toward_read_def)

lemma toward_read_trans:
  assumes "toward_read a b" and "toward_read b c"
  shows "toward_read a c"
  unfolding toward_read_def
proof (intro allI impI)
  fix k l
  assume "a k = Some l"
  with assms(1) obtain l' where l': "b k = Some l'" "length l \<le> length l'"
    "\<forall>i<length l. l' ! i = l ! i \<or> l' ! i = (l ! i)\<lparr>m_status := Read\<rparr>"
    unfolding toward_read_def by blast
  from assms(2) l'(1) obtain l'' where l'': "c k = Some l''" "length l' \<le> length l''"
    "\<forall>i<length l'. l'' ! i = l' ! i \<or> l'' ! i = (l' ! i)\<lparr>m_status := Read\<rparr>"
    unfolding toward_read_def by blast
  have "\<forall>i<length l. l'' ! i = l ! i \<or> l'' ! i = (l ! i)\<lparr>m_status := Read\<rparr>"
  proof (intro allI impI)
    fix i
    assume i: "i < length l"
    with l'(2) have "i < length l'" by simp
    with l''(3) have "l'' ! i = l' ! i \<or> l'' ! i = (l' ! i)\<lparr>m_status := Read\<rparr>" by blast
    moreover from l'(3) i have "l' ! i = l ! i \<or> l' ! i = (l ! i)\<lparr>m_status := Read\<rparr>" by blast
    ultimately show "l'' ! i = l ! i \<or> l'' ! i = (l ! i)\<lparr>m_status := Read\<rparr>" by auto
  qed
  with l''(1) l'(2) l''(2)
  show "\<exists>l'. c k = Some l' \<and> length l \<le> length l'
           \<and> (\<forall>i<length l. l' ! i = l ! i \<or> l' ! i = (l ! i)\<lparr>m_status := Read\<rparr>)"
    by auto
qed

lemma toward_read_append: "toward_read ms (ms(k \<mapsto> msgs_of ms k @ [m]))"
  by (auto simp: toward_read_def msgs_of_def nth_append)

lemma toward_read_markRead: "toward_read ms (ms(k \<mapsto> markRead ids (msgs_of ms k)))"
  by (auto simp: toward_read_def msgs_of_def markRead_def)

lemma toward_read_spread:
  "entry_or_empty ms k = Inr old \<Longrightarrow> toward_read ms (ms(k \<mapsto> old @ [m]))"
  by (auto simp: toward_read_def entry_or_empty_def nth_append split: option.splits if_splits)

lemma toward_read_incoming:
  "toward_read (messages st)
     (messages (case handleIncomingMessage cl msg st of Inl e \<Rightarrow> st | Inr st' \<Rightarrow> st'))"
  by (auto simp: handleIncomingMessage_def Let_def toward_read_spread toward_read_refl
      split: sum.splits)

lemma toward_read_receipt:
  "toward_read (messages st) (messages (handleReadReceipt cl chatId ids readerId st))"
proof -
  have "toward_read (messages st) ((messages st)(k \<mapsto> markRead ids l))"
    if "messages st k = Some l" for k l
    using toward_read_markRead [of "messages st" k ids] that by (simp add: msgs_of_def)
  then show ?thesis
    by (simp add: handleReadReceipt_def Let_def toward_read_refl split: option.splits)
qed

lemma toward_read_entry_markRead:
  "entry_or_empty ms k = Inr old \<Longrightarrow> toward_read ms (ms(k \<mapsto> markRead ids old))"
  by (auto simp: toward_read_def entry_or_empty_def markRead_def split: option.splits if_splits)

lemma toward_read_effect:
  "toward_read (messages st)
     (messages (case read_receipts_effect st of Inl e \<Rightarrow> st | Inr st' \<Rightarrow> st'))"
  by (auto simp: read_receipts_effect_def Let_def toward_read_refl toward_read_entry_markRead
      split: option.splits sum.splits)

lemma toward_read_send:
  "toward_read (messages st) (messages (fst (handleSendMessage J ai t0 now text att st)))"
proof -
  have two: "toward_read ms ((ms(a \<mapsto> msgs_of ms a @ [m]))
      (u \<mapsto> msgs_of (ms(a \<mapsto> msgs_of ms a @ [m])) u @ [m']))" for ms a m u m'
    by (rule toward_read_trans [OF toward_read_append toward_read_append])
  show ?thesis
    by (simp add: handleSendMessage_def Let_def toward_read_refl toward_read_append two
        split: option.splits)
qed

lemma toward_read_deliver: "toward_read (messages st) (messages (deliver_reply cl now p st))"
  using toward_read_incoming [of st cl "botMsg now p"]
  by (simp add: deliver_reply_def Let_def)

lemma toward_read_step: "toward_read (messages st) (messages (step J ai t0 op st))"
  by (cases op)
     (simp_all add: step_def toward_read_incoming toward_read_receipt toward_read_effect
        toward_read_send toward_read_deliver)

lemma toward_read_steps: "toward_read (messages st) (messages (fold (step J ai t0) ops st))"
proof (induction ops arbitrary: st)
  case Nil
  show ?case by (simp add: toward_read_refl)
next
  case (Cons op ops)
  show ?case
    using toward_read_trans [OF toward_read_step Cons.IH] by simp
qed

text \<open>
  Claim C8. Take any message of the store and run any sequence of the controller's
  operations (inbound message handling, read-receipt application, the read-marking
  effect, outbound send, delivery of a generated reply), each handler with any render. The message is still in its
  conversation at its position, either unchanged or with its status set to \<^verbatim>\<open>read\<close>;
  so a message whose status is \<^verbatim>\<open>read\<close> keeps that status.
\<close>

theorem read_status_never_reverted:
  assumes "messages st k = Some l"
    and "i < length l"
    and "st' = fold (step J ai t0) ops st"
  shows "\<exists>l'. messages st' k = Some l' \<and> i < length l'
       \<and> (l' ! i = l ! i \<or> l' ! i = (l ! i)\<lparr>m_status := Read\<rparr>)
       \<and> (m_status (l ! i) = Read \<longrightarrow> m_status (l' ! i) = Read)"
proof -
  from toward_read_steps [of st J ai t0 ops] assms(1)
  obtain l' where l': "messages st' k = Some l'" "length l \<le> length l'"
    "\<forall>i<length l. l' ! i = l ! i \<or> l' ! i = (l ! i)\<lparr>m_status := Read\<rparr>"
    unfolding toward_read_def assms(3) by blast
  from l'(3) assms(2) have c: "l' ! i = l ! i \<or> l' ! i = (l ! i)\<lparr>m_status := Read\<rparr>"
    by blast
  then have "m_status (l ! i) = Read \<longrightarrow> m_status (l' ! i) = Read"
    by auto
  with l'(1,2) assms(2) c show ?thesis
    by auto
qed

text \<open>
  The greeting \<open>m3\<close> of the Gemini conversation is read from the start. A further message
  arrives there, a receipt names \<open>m3\<close>, \<open>alice\<close> opens the conversation, the effect runs
  and she sends a message: \<open>m3\<close> is still first in the conversation, and still read.
\<close>

theorem read_status_never_reverted_witness:
  "(\<exists>m. messages (ex_state True) ''2'' = Some [m] \<and> m_id m = ''m3'' \<and> m_status m = Read)
   \<and> (\<exists>l'. messages
          (fold (step ex_JSON ex_ai 0)
             [Op_incoming ex_cl (ex_msg ''m9'' ''2'' (Some ''2'')),
              Op_read_receipt ex_cl ''2'' [''m3''] ''2'',
              Op_incoming ex_cl (ex_msg ''m10'' ''alice'' (Some ''2'')),
              Op_read_effect,
              Op_send 9 ''hello'' None]
             (handleSelectChat ''2'' (ex_state True))) ''2'' = Some l'
        \<and> 0 < length l' \<and> m_id (l' ! 0) = ''m3'' \<and> m_status (l' ! 0) = Read)"
proof -
  let ?m3 = "\<lparr>m_id = ''m3'', m_chatId = ''2'',
       m_text = ''Hello! I am Gemini. How can I assist you today?'',
       m_sender = Them, m_senderId = Some ''2'', m_timestamp = 0,
       m_status = Read, m_type = None, m_mediaUrl = None, m_fileName = None,
       m_fileSize = None, m_duration = None\<rparr>"
  have m0: "messages (ex_state True) ''2'' = Some [?m3]"
    by (simp add: ex_defs)
  have m: "messages (handleSelectChat ''2'' (ex_state True)) ''2'' = Some [?m3]"
    by (simp add: ex_defs handleSelectChat_def)
  have i: "0 < length [?m3]"
    by simp
  from read_status_never_reverted [OF m i refl, of ex_JSON ex_ai 0
      "[Op_incoming ex_cl (ex_msg ''m9'' ''2'' (Some ''2'')),
        Op_read_receipt ex_cl ''2'' [''m3''] ''2'',
        Op_incoming ex_cl (ex_msg ''m10'' ''alice'' (Some ''2'')),
        Op_read_effect,
        Op_send 9 ''hello'' None]"]
  have "\<exists>l'. messages
          (fold (step ex_JSON ex_ai 0)
             [Op_incoming ex_cl (ex_msg ''m9'' ''2'' (Some ''2'')),
              Op_read_receipt ex_cl ''2'' [''m3''] ''2'',
              Op_incoming ex_cl (ex_msg ''m10'' ''alice'' (Some ''2'')),
              Op_read_effect,
              Op_send 9 ''hello'' None]
             (handleSelectChat ''2'' (ex_state True))) ''2'' = Some l'
        \<and> 0 < length l' \<and> m_id (l' ! 0) = ''m3'' \<and> m_status (l' ! 0) = Read"
    by auto
  with m0 show ?thesis by simp
qed

subsection \<open>Generated replies\<close>

lemma typing_delay_clamped:
  "typing_delay reply =
     (if int (length reply) * 30 < 1500 then 1500
      else if 6000 < int (length reply) * 30 then 6000
      else int (length reply) * 30)
   \<and> 1500 \<le> typing_delay reply \<and> typing_delay reply \<le> 6000"
  by (simp add: typing_delay_def)

lemma userMsg_text [simp]: "m_text (userMsg now a text u att) = text"
  by (simp add: userMsg_def apply_attachment_def split: option.splits)

text \<open>
  Claim C5. Take an outbound send that passes the guards of \<^verbatim>\<open>handleSendMessage\<close>: a
  non-empty active conversation id, a socket, and a chat with that id in the chat list.
  When the chat is bot-flagged, not a group and not the self-chat \<^verbatim>\<open>1\<close>, exactly one reply
  waits behind the timer: the generator's text, held back for 30 ms for each of its
  characters, clamped to between 1500 ms and 6000 ms. When the timer fires the reply goes
  through \<^verbatim>\<open>handleIncomingMessage\<close>, as a message of the chat from the bot: chat list
  and store afterwards are those that the handler returns, or the old ones when it raises. For any other
  chat no reply is generated.
\<close>

theorem bot_reply:
  assumes "activeChatId st = Some a" and "a \<noteq> []" and "socketRef st = Some sock"
    and "find (\<lambda>c. c_id c = a) (chats st) = Some chat"
    and "(st', pending) = handleSendMessage J ai boot now body att st"
    and "reply = ai (msgs_of (messages st) a @ [userMsg now a body (u_username (userProfile st)) att])
                   body (c_name chat) (or_else (c_bio chat) ''A helpful assistant'')"
    and "p = \<lparr>p_delay = typing_delay reply, p_chatId = a, p_text = reply,
               p_senderId = Some (c_id chat)\<rparr>"
  shows "(truthy (c_isBot chat) \<and> \<not> truthy (c_isGroup chat) \<and> c_id chat \<noteq> ''1''
          \<longrightarrow> pending = [p])
       \<and> (\<not> (truthy (c_isBot chat) \<and> \<not> truthy (c_isGroup chat) \<and> c_id chat \<noteq> ''1'')
          \<longrightarrow> pending = [])
       \<and> p_delay p =
            (if int (length reply) * 30 < 1500 then 1500
             else if 6000 < int (length reply) * 30 then 6000
             else int (length reply) * 30)
       \<and> 1500 \<le> p_delay p \<and> p_delay p \<le> 6000
       \<and> (\<forall>cl now' s.
             (case handleIncomingMessage cl (botMsg now' p) s of
                Inr s' \<Rightarrow> chats (deliver_reply cl now' p s) = chats s'
                          \<and> messages (deliver_reply cl now' p s) = messages s'
              | Inl e \<Rightarrow> chats (deliver_reply cl now' p s) = chats s
                          \<and> messages (deliver_reply cl now' p s) = messages s))
       \<and> (\<forall>now'. m_text (botMsg now' p) = reply \<and> m_chatId (botMsg now' p) = a
             \<and> m_senderId (botMsg now' p) = Some (c_id chat) \<and> m_sender (botMsg now' p) = Them)"
proof -
  have pend: "pending = (if truthy (c_isBot chat) \<and> \<not> truthy (c_isGroup chat) \<and> c_id chat \<noteq> ''1''
                         then [p] else [])"
    using assms(1-4) assms(5) [symmetric] unfolding assms(6,7)
    by (simp add: handleSendMessage_def Let_def split: if_splits)
  have d: "p_delay p = typing_delay reply"
    by (simp add: assms(7))
  show ?thesis
    using pend typing_delay_clamped [of reply] unfolding d
    by (simp add: deliver_reply_def Let_def botMsg_def assms(7) split: sum.splits)
qed

text \<open>
  \<open>alice\<close> writes to the Gemini bot: one reply of 64 characters waits 1920 ms. She writes
  to her Saved Messages: no reply.
\<close>

theorem bot_reply_witness:
  "snd (handleSendMessage ex_JSON ex_ai 0 9 ''hello'' None (handleSelectChat ''2'' (ex_state True)))
     = [\<lparr>p_delay = 1920, p_chatId = ''2'',
          p_text = ''(Mock Response from Gemini AI) That's interesting! Tell me more.'',
          p_senderId = Some ''2''\<rparr>]
   \<and> snd (handleSendMessage ex_JSON ex_ai 0 9 ''hello'' None (handleSelectChat ''1'' (ex_state True)))
     = []"
proof -
  let ?s2 = "handleSelectChat ''2'' (ex_state True)"
  let ?s1 = "handleSelectChat ''1'' (ex_state True)"
  let ?c2 = "(INITIAL_CHATS 0 ! 1)\<lparr>c_unreadCount := 0\<rparr>"
  let ?c1 = "(INITIAL_CHATS 0 ! 0)\<lparr>c_unreadCount := 0\<rparr>"
  let ?r2 = "handleSendMessage ex_JSON ex_ai 0 9 ''hello'' None ?s2"
  let ?r1 = "handleSendMessage ex_JSON ex_ai 0 9 ''hello'' None ?s1"
  have a2: "activeChatId ?s2 = Some ''2''" and a1: "activeChatId ?s1 = Some ''1''"
    by (simp_all add: handleSelectChat_def)
  have k2: "socketRef ?s2 = Some (ex_sock True)" and k1: "socketRef ?s1 = Some (ex_sock True)"
    by (simp_all add: handleSelectChat_def ex_state_def)
  have c2: "find (\<lambda>c. c_id c = ''2'') (chats ?s2) = Some ?c2"
    by (simp add: handleSelectChat_def ex_state_def INITIAL_CHATS_def)
  have c1: "find (\<lambda>c. c_id c = ''1'') (chats ?s1) = Some ?c1"
    by (simp add: handleSelectChat_def ex_state_def INITIAL_CHATS_def)
  have r2: "snd ?r2
     = [\<lparr>p_delay = 1920, p_chatId = ''2'',
          p_text = ''(Mock Response from Gemini AI) That's interesting! Tell me more.'',
          p_senderId = Some ''2''\<rparr>]"
    using bot_reply [where st = ?s2 and a = "''2''" and sock = "ex_sock True" and chat = ?c2
        and st' = "fst ?r2" and pending = "snd ?r2" and J = ex_JSON and ai = ex_ai and boot = 0
        and now = 9 and body = "''hello''" and att = None, OF a2 _ k2 c2 _ refl refl]
    by (simp add: INITIAL_CHATS_def truthy_def ex_ai_def typing_delay_def)
  have r1: "snd ?r1 = []"
    using bot_reply [where st = ?s1 and a = "''1''" and sock = "ex_sock True" and chat = ?c1
        and st' = "fst ?r1" and pending = "snd ?r1" and J = ex_JSON and ai = ex_ai and boot = 0
        and now = 9 and body = "''hello''" and att = None, OF a1 _ k1 c1 _ refl refl]
    by (simp add: INITIAL_CHATS_def truthy_def)
  from r2 r1 show ?thesis by simp
qed

subsection \<open>Promo codes\<close>

text \<open>
  Claim C9. Let code \<open>code\<close> be known to the relay and let user \<open>userId\<close> not have used it.
  The first \<^verbatim>\<open>REDEEM_PROMO\<close> request, with the storage engine executing the update, is
  answered by a success result (followed only by profile updates), and a user row with
  that id has its premium flag set afterwards. A second request for the same user and code
  is answered by the single failure \<^verbatim>\<open>Code already used by you\<close> and leaves the database
  as it is. A request for a code that the relay does not know is answered by the single
  failure \<^verbatim>\<open>Invalid code\<close> and leaves the database as it is.
\<close>

theorem redeem_promo_twice:
  assumes "promo_codes db code = Some promo"
    and "(userId, code) \<notin> user_promo_usage db"
    and "(db', out') = redeem_promo False userId code db"
    and "(db'', out'') = redeem_promo err' userId code db'"
  shows "(\<exists>updates. out' = (To_socket, PROMO_RESULT True ''Premium Activated!'') # updates
            \<and> (\<forall>e\<in>set updates. \<exists>profile. snd e = USER_UPDATED profile))
       \<and> (\<forall>row. users db userId = Some row \<longrightarrow> users db' userId = Some (row\<lparr>r_isPremium := 1\<rparr>))
       \<and> out'' = [(To_socket, PROMO_RESULT False ''Code already used by you'')]
       \<and> db'' = db'
       \<and> (\<forall>err u unknown. promo_codes db unknown = None \<longrightarrow>
             redeem_promo err u unknown db
               = (db, [(To_socket, PROMO_RESULT False ''Invalid code'')]))"
proof -
  have first: "db' = fst (redeem_promo False userId code db)"
    "out' = snd (redeem_promo False userId code db)"
    using assms(3) by (metis fst_conv, metis snd_conv)
  have o1: "\<exists>updates. out' = (To_socket, PROMO_RESULT True ''Premium Activated!'') # updates
            \<and> (\<forall>e\<in>set updates. \<exists>profile. snd e = USER_UPDATED profile)"
    using assms(1,2) unfolding first
    by (auto simp: redeem_promo_def Let_def split: option.splits)
  have u1: "\<forall>row. users db userId = Some row \<longrightarrow> users db' userId = Some (row\<lparr>r_isPremium := 1\<rparr>)"
    using assms(1,2) unfolding first
    by (simp add: redeem_promo_def Let_def)
  have used: "(userId, code) \<in> user_promo_usage db'" "promo_codes db' code \<noteq> None"
    using assms(1,2) unfolding first
    by (simp_all add: redeem_promo_def Let_def)
  have second: "redeem_promo err' userId code db'
      = (db', [(To_socket, PROMO_RESULT False ''Code already used by you'')])"
    using used by (auto simp: redeem_promo_def split: option.splits)
  have o2: "out'' = [(To_socket, PROMO_RESULT False ''Code already used by you'')]" "db'' = db'"
    using assms(4) unfolding second by simp_all
  have unk: "\<forall>err u unknown. promo_codes db unknown = None \<longrightarrow>
             redeem_promo err u unknown db
               = (db, [(To_socket, PROMO_RESULT False ''Invalid code'')])"
    by (simp add: redeem_promo_def)
  from o1 u1 o2 unk show ?thesis by blast
qed

text \<open>
  \<open>alice\<close> redeems the seeded code \<^verbatim>\<open>welcome10\<close> twice, and once a code that does not
  exist.
\<close>

theorem redeem_promo_twice_witness:
  "promo_codes ex_db ''welcome10'' = Some \<lparr>max_uses = 999999, current_uses = 0\<rparr>
   \<and> (''alice'', ''welcome10'') \<notin> user_promo_usage ex_db
   \<and> hd (snd (redeem_promo False ''alice'' ''welcome10'' ex_db))
        = (To_socket, PROMO_RESULT True ''Premium Activated!'')
   \<and> map_option r_isPremium (users (fst (redeem_promo False ''alice'' ''welcome10'' ex_db)) ''alice'')
        = Some 1
   \<and> snd (redeem_promo False ''alice'' ''welcome10''
             (fst (redeem_promo False ''alice'' ''welcome10'' ex_db)))
        = [(To_socket, PROMO_RESULT False ''Code already used by you'')]
   \<and> promo_codes ex_db ''welcome11'' = None
   \<and> snd (redeem_promo False ''alice'' ''welcome11'' ex_db)
        = [(To_socket, PROMO_RESULT False ''Invalid code'')]"
proof -
  let ?r1 = "redeem_promo False ''alice'' ''welcome10'' ex_db"
  let ?r2 = "redeem_promo False ''alice'' ''welcome10'' (fst ?r1)"
  have k: "promo_codes ex_db ''welcome10'' = Some \<lparr>max_uses = 999999, current_uses = 0\<rparr>"
    by (simp add: ex_db_def)
  have n: "(''alice'', ''welcome10'') \<notin> user_promo_usage ex_db"
    by (simp add: ex_db_def)
  have x: "promo_codes ex_db ''welcome11'' = None"
    by (simp add: ex_db_def)
  have row: "\<exists>row. users ex_db ''alice'' = Some row"
    by (simp add: ex_db_def)
  note T = redeem_promo_twice [where db = ex_db and code = "''welcome10''" and userId = "''alice''"
      and db' = "fst ?r1" and out' = "snd ?r1" and db'' = "fst ?r2" and out'' = "snd ?r2"
      and err' = False, OF k n]
  have T': "(\<exists>updates. snd ?r1 = (To_socket, PROMO_RESULT True ''Premium Activated!'') # updates
            \<and> (\<forall>e\<in>set updates. \<exists>profile. snd e = USER_UPDATED profile))
       \<and> (\<forall>row. users ex_db ''alice'' = Some row \<longrightarrow> users (fst ?r1) ''alice'' = Some (row\<lparr>r_isPremium := 1\<rparr>))
       \<and> snd ?r2 = [(To_socket, PROMO_RESULT False ''Code already used by you'')]
       \<and> fst ?r2 = fst ?r1
       \<and> (\<forall>err u unknown. promo_codes ex_db unknown = None \<longrightarrow>
             redeem_promo err u unknown ex_db
               = (ex_db, [(To_socket, PROMO_RESULT False ''Invalid code'')]))"
    by (rule T) simp_all
  from T' have h: "hd (snd ?r1) = (To_socket, PROMO_RESULT True ''Premium Activated!'')"
    by auto
  from T' row have p: "map_option r_isPremium (users (fst ?r1) ''alice'') = Some 1"
    by auto
  from T' x have i: "snd (redeem_promo False ''alice'' ''welcome11'' ex_db)
        = [(To_socket, PROMO_RESULT False ''Invalid code'')]"
    by simp
  from T' k n h p x i show ?thesis by simp
qed

end
